theory Spec2Isabelle
  imports Complex_Main
begin

section \<open>Time\<close>

text \<open>
  The program works with naive \<^verbatim>\<open>datetime\<close> values (no time zone). A naive datetime is a
  point of a linear timeline; it is modelled as the number of seconds since an arbitrary
  midnight. \<^verbatim>\<open>timedelta(hours=h)\<close> is \<open>h * 3600\<close>, \<^verbatim>\<open>d.date()\<close> is the day number
  \<open>d div 86400\<close> and \<^verbatim>\<open>d.replace(hour=0, minute=0, second=0, microsecond=0)\<close> is the
  midnight of that day.
\<close>

type_synonym datetime = int

definition ORA :: int where
  "ORA = 3600"

definition GIORNO :: int where
  "GIORNO = 86400"

definition date_of :: "datetime \<Rightarrow> int" where
  "date_of t = t div GIORNO"

definition mezzanotte :: "datetime \<Rightarrow> datetime" where
  "mezzanotte t = (t div GIORNO) * GIORNO"

definition timedelta_hours :: "int \<Rightarrow> int" where
  "timedelta_hours h = h * ORA"

section \<open>Window summation engine\<close>

text \<open>A tile of the input list is the pair \<^verbatim>\<open>(file_path, timestamp)\<close>.\<close>

type_synonym tile = "string \<times> datetime"

text \<open>
  Band 1 of a raster, as \<^verbatim>\<open>read(1)\<close> returns it: a two-dimensional array with its shape
  (rows, columns) and its pixels row by row. Pixel values are modelled as reals (rounding of
  \<^verbatim>\<open>float64\<close> is not modelled).
\<close>

record raster =
  n_righe :: nat
  n_colonne :: nat
  pixel :: "real list"

text \<open>
  What the program observes of the outside world:
  \<^item> \<open>leggi_banda p\<close> is the result of \<^verbatim>\<open>rasterio.open(p)\<close> followed by \<^verbatim>\<open>read(1)\<close>:
    \<open>None\<close> when either raises;
  \<^item> \<open>carica_shp\<close> tells whether \<^verbatim>\<open>gpd.read_file(shapefile_path)\<close> succeeds;
  \<^item> \<open>maschera r\<close> gives the pixels of band 1 of \<^verbatim>\<open>rasterio.mask.mask\<close> applied to the
    summed raster (the array \<^verbatim>\<open>out_image[0]\<close>, whose shape the statistics do not use),
    \<open>None\<close> when it raises.
\<close>

record mondo =
  leggi_banda :: "string \<Rightarrow> raster option"
  carica_shp :: bool
  maschera :: "raster \<Rightarrow> real list option"

datatype errore = ErroreApertura string

text \<open>
  The first loop of \<^verbatim>\<open>somma_file_tif_finestra\<close> (lines 583--591): the two lists
  \<^verbatim>\<open>file_finestra\<close> and \<^verbatim>\<open>timestamp_inclusi\<close> grow by \<^verbatim>\<open>append\<close>.
\<close>

fun seleziona_finestra ::
  "tile list \<Rightarrow> datetime \<Rightarrow> datetime \<Rightarrow> string list \<times> datetime list
    \<Rightarrow> string list \<times> datetime list" where
  "seleziona_finestra [] finestra_inizio finestra_fine acc = acc"
| "seleziona_finestra ((file_path, timestamp) # resto) finestra_inizio finestra_fine
      (file_finestra, timestamp_inclusi) =
     (if finestra_inizio \<le> timestamp \<and> timestamp < finestra_fine
      then seleziona_finestra resto finestra_inizio finestra_fine
             (file_finestra @ [file_path], timestamp_inclusi @ [timestamp])
      else seleziona_finestra resto finestra_inizio finestra_fine
             (file_finestra, timestamp_inclusi))"

text \<open>\<^verbatim>\<open>os.path.basename\<close>: what follows the last path separator (slash or backslash).\<close>

definition basename :: "string \<Rightarrow> string" where
  "basename p = rev (takeWhile (\<lambda>c. c \<noteq> CHR ''/'' \<and> c \<noteq> CHR 0x5C) (rev p))"

text \<open>
  \<^verbatim>\<open>data_somma + data_temp\<close> on two arrays, with numpy's broadcasting: along each axis the
  two lengths are equal or one of them is 1, and the axis of length 1 is repeated; otherwise
  the addition raises \<^verbatim>\<open>ValueError\<close> (\<open>None\<close>).
\<close>

definition compatibili :: "nat \<Rightarrow> nat \<Rightarrow> bool" where
  "compatibili m n \<longleftrightarrow> m = n \<or> m = 1 \<or> n = 1"

definition lunghezza_comune :: "nat \<Rightarrow> nat \<Rightarrow> nat" where
  "lunghezza_comune m n = (if m = 1 then n else m)"

definition pixel_a :: "raster \<Rightarrow> nat \<Rightarrow> nat \<Rightarrow> real" where
  "pixel_a r i j =
     pixel r ! ((if n_righe r = 1 then 0 else i) * n_colonne r
                + (if n_colonne r = 1 then 0 else j))"

definition somma_raster :: "raster \<Rightarrow> raster \<Rightarrow> raster option" where
  "somma_raster a b =
     (if compatibili (n_righe a) (n_righe b) \<and> compatibili (n_colonne a) (n_colonne b)
      then
        (let h = lunghezza_comune (n_righe a) (n_righe b);
             l = lunghezza_comune (n_colonne a) (n_colonne b)
         in Some \<lparr>n_righe = h, n_colonne = l,
                  pixel = map (\<lambda>k. pixel_a a (k div l) (k mod l) + pixel_a b (k div l) (k mod l))
                            [0..<h * l]\<rparr>)
      else None)"

text \<open>
  The loop over \<^verbatim>\<open>file_finestra[1:]\<close> (lines 611--618): the body is inside
  \<^verbatim>\<open>try ... except Exception: continue\<close>, so a tile that cannot be read or added is skipped.
\<close>

fun somma_resto :: "mondo \<Rightarrow> raster \<Rightarrow> string list \<Rightarrow> raster" where
  "somma_resto w data_somma [] = data_somma"
| "somma_resto w data_somma (file_path # resto) =
     (case leggi_banda w file_path of
        None \<Rightarrow> somma_resto w data_somma resto
      | Some data_temp \<Rightarrow>
          (case somma_raster data_somma data_temp of
             None \<Rightarrow> somma_resto w data_somma resto
           | Some s \<Rightarrow> somma_resto w s resto))"

text \<open>
  \<^verbatim>\<open>somma_file_tif_finestra\<close>. The result \<^verbatim>\<open>(None, None, [])\<close> is \<open>Inr None\<close>; otherwise the
  summed raster (the content of the temporary file), the window and the base names of the
  selected files. The first selected file is opened outside any \<^verbatim>\<open>try\<close> (line 603): when
  that raises, the exception leaves the function (\<open>Inl\<close>).
\<close>

definition somma_file_tif_finestra ::
  "mondo \<Rightarrow> tile list \<Rightarrow> datetime \<Rightarrow> datetime
    \<Rightarrow> errore + (raster \<times> (datetime \<times> datetime) \<times> string list) option" where
  "somma_file_tif_finestra w lista_file_con_timestamp finestra_inizio finestra_fine =
     (case seleziona_finestra lista_file_con_timestamp finestra_inizio finestra_fine ([], []) of
        (file_finestra, timestamp_inclusi) \<Rightarrow>
          (case file_finestra of
             [] \<Rightarrow> Inr None
           | primo # resto \<Rightarrow>
               (case leggi_banda w primo of
                  None \<Rightarrow> Inl (ErroreApertura primo)
                | Some data_somma \<Rightarrow>
                    Inr (Some (somma_resto w data_somma resto,
                               (finestra_inizio, finestra_fine),
                               map basename file_finestra)))))"

section \<open>Zone cropper\<close>

text \<open>
  \<^verbatim>\<open>ritaglia_raster_sommato_con_shapefile\<close>: the whole body runs under
  \<^verbatim>\<open>try ... except Exception\<close>, and every failure gives \<^verbatim>\<open>(None, None)\<close>. The model returns
  the cropped array \<^verbatim>\<open>out_image[0]\<close>.
\<close>

fun ritaglia_raster_sommato_con_shapefile :: "mondo \<Rightarrow> raster option \<Rightarrow> real list option" where
  "ritaglia_raster_sommato_con_shapefile w None = None"
| "ritaglia_raster_sommato_con_shapefile w (Some raster_sommato) =
     (if carica_shp w then maschera w raster_sommato else None)"

section \<open>Statistics evaluator\<close>

text \<open>
  A statistics dictionary is the list of its items in insertion order; the configuration
  \<^verbatim>\<open>statistiche_config\<close> is a dictionary from names to booleans, read with
  \<^verbatim>\<open>.get(name, False)\<close>.
\<close>

type_synonym stats = "(string \<times> real) list"

type_synonym statistiche_config = "string \<Rightarrow> bool option"

definition config_get :: "statistiche_config \<Rightarrow> string \<Rightarrow> bool" where
  "config_get statistiche_config nome =
     (case statistiche_config nome of None \<Rightarrow> False | Some b \<Rightarrow> b)"

definition np_mean :: "real list \<Rightarrow> real" where
  "np_mean xs = sum_list xs / real (length xs)"

definition np_median :: "real list \<Rightarrow> real" where
  "np_median xs =
     (let s = sort xs; n = length s
      in if n mod 2 = 1 then s ! (n div 2) else (s ! (n div 2 - 1) + s ! (n div 2)) / 2)"

text \<open>\<^verbatim>\<open>np.percentile\<close> with its default linear interpolation between the two nearest ranks.\<close>

definition np_percentile :: "real list \<Rightarrow> real \<Rightarrow> real" where
  "np_percentile xs q =
     (let s = sort xs; n = length s;
          h = real (n - 1) * q / 100;
          lo = nat \<lfloor>h\<rfloor>;
          hi = min (lo + 1) (n - 1)
      in s ! lo + (h - real lo) * (s ! hi - s ! lo))"

definition np_max :: "real list \<Rightarrow> real" where
  "np_max xs = fold max (tl xs) (hd xs)"

definition np_min :: "real list \<Rightarrow> real" where
  "np_min xs = fold min (tl xs) (hd xs)"

definition np_std :: "real list \<Rightarrow> real" where
  "np_std xs = sqrt (np_mean (map (\<lambda>x. (x - np_mean xs)\<^sup>2) xs))"

text \<open>One \<^verbatim>\<open>if statistiche_config.get(nome, False): risultato[nome] = ...\<close> statement.\<close>

definition voce_statistica :: "statistiche_config \<Rightarrow> string \<Rightarrow> real \<Rightarrow> stats" where
  "voce_statistica statistiche_config nome valore =
     (if config_get statistiche_config nome then [(nome, valore)] else [])"

text \<open>
  \<^verbatim>\<open>calcola_statistiche_su_array_ritagliato\<close>: \<open>None\<close> is Python's \<^verbatim>\<open>None\<close>. The numpy
  functions are applied to a non-empty array of reals and do not raise.
\<close>

fun calcola_statistiche_su_array_ritagliato ::
  "real list option \<Rightarrow> statistiche_config \<Rightarrow> stats option" where
  "calcola_statistiche_su_array_ritagliato None statistiche_config = None"
| "calcola_statistiche_su_array_ritagliato (Some array_ritagliato) statistiche_config =
     (if \<not> list_ex (\<lambda>x. 0 \<le> x) array_ritagliato then None
      else
        (let valori_validi = filter (\<lambda>x. 0 \<le> x) array_ritagliato
         in if length valori_validi = 0 then None
            else Some
              (voce_statistica statistiche_config ''media'' (np_mean valori_validi)
               @ voce_statistica statistiche_config ''mediana'' (np_median valori_validi)
               @ voce_statistica statistiche_config ''75_perc'' (np_percentile valori_validi 75)
               @ voce_statistica statistiche_config ''95_perc'' (np_percentile valori_validi 95)
               @ voce_statistica statistiche_config ''99_perc'' (np_percentile valori_validi 99)
               @ voce_statistica statistiche_config ''max'' (np_max valori_validi)
               @ voce_statistica statistiche_config ''min'' (np_min valori_validi)
               @ voce_statistica statistiche_config ''std'' (np_std valori_validi))))"

definition nomi_statistiche :: "string list" where
  "nomi_statistiche =
     [''media'', ''mediana'', ''75_perc'', ''95_perc'', ''99_perc'', ''max'', ''min'', ''std'']"

section \<open>Sliding-window search\<close>

text \<open>
  An entry of \<^verbatim>\<open>lista_finestre_log\<close>: window start, window end, statistics and the names of
  the tiles of the window. An entry of \<^verbatim>\<open>risultati\<close>: window start and statistics.

  Reading the tiles is the effect of \<^verbatim>\<open>finestre_mobili_con_somma_e_ritaglio\<close>; the model
  records it as the list of the calls of \<^verbatim>\<open>somma_file_tif_finestra\<close> it makes, each with the
  tile list, the start and the end of the window passed.
\<close>

type_synonym voce_log = "datetime \<times> datetime \<times> stats \<times> string list"

type_synonym chiamata = "tile list \<times> datetime \<times> datetime"

text \<open>\<^verbatim>\<open>x[1].get('media', 0)\<close> and \<^verbatim>\<open>x[2].get('media', 0)\<close>.\<close>

definition media_di :: "stats \<Rightarrow> real" where
  "media_di st = (case map_of st ''media'' of None \<Rightarrow> 0 | Some m \<Rightarrow> m)"

text \<open>
  Python's \<^verbatim>\<open>max(iterable, key=f)\<close>: one pass from left to right, the current maximum is
  replaced only by an item with a strictly greater key.
\<close>

fun max_con_chiave :: "('a \<Rightarrow> real) \<Rightarrow> 'a \<Rightarrow> 'a list \<Rightarrow> 'a" where
  "max_con_chiave f migliore [] = migliore"
| "max_con_chiave f migliore (x # xs) =
     (if f migliore < f x then max_con_chiave f x xs else max_con_chiave f migliore xs)"

text \<open>\<^verbatim>\<open>min(timestamps)\<close> and \<^verbatim>\<open>max(timestamps)\<close> on a non-empty list.\<close>

definition py_min :: "int list \<Rightarrow> int" where
  "py_min xs = fold min (tl xs) (hd xs)"

definition py_max :: "int list \<Rightarrow> int" where
  "py_max xs = fold max (tl xs) (hd xs)"

text \<open>The loop that counts \<^verbatim>\<open>finestre_attese\<close> (lines 791--796).\<close>

function conta_finestre_attese :: "int \<Rightarrow> datetime \<Rightarrow> datetime \<Rightarrow> nat \<Rightarrow> nat" where
  "conta_finestre_attese durata max_time_effettivo temp_corrente finestre_attese =
     (if temp_corrente + durata \<le> max_time_effettivo
      then conta_finestre_attese durata max_time_effettivo (temp_corrente + ORA)
             (finestre_attese + 1)
      else finestre_attese)"
  by pat_completeness auto
termination
  by (relation "measure (\<lambda>(d, m, c, n). nat (m - (c + d) + 1))") (auto simp: ORA_def)

declare conta_finestre_attese.simps [simp del]

text \<open>
  The body of the main loop (lines 801--823) for the window that starts at \<open>corrente\<close>:
  \<open>Inl\<close> when the summation raises, \<open>Inr None\<close> when the window gives no statistics, otherwise
  the statistics and the names of the tiles. \<^verbatim>\<open>if stats:\<close> holds for a non-empty dictionary.
\<close>

definition valuta_finestra ::
  "mondo \<Rightarrow> tile list \<Rightarrow> statistiche_config \<Rightarrow> datetime \<Rightarrow> datetime
    \<Rightarrow> errore + (stats \<times> string list) option" where
  "valuta_finestra w file_con_timestamp statistiche_config inizio fine =
     (case somma_file_tif_finestra w file_con_timestamp inizio fine of
        Inl e \<Rightarrow> Inl e
      | Inr None \<Rightarrow> Inr None
      | Inr (Some (raster_sommato, finestra_info, file_inclusi)) \<Rightarrow>
          (case ritaglia_raster_sommato_con_shapefile w (Some raster_sommato) of
             None \<Rightarrow> Inr None
           | Some array_ritagliato \<Rightarrow>
               (case calcola_statistiche_su_array_ritagliato (Some array_ritagliato)
                       statistiche_config of
                  None \<Rightarrow> Inr None
                | Some st \<Rightarrow> if st \<noteq> [] then Inr (Some (st, file_inclusi)) else Inr None)))"

text \<open>
  The main loop (lines 800--825). The state is \<^verbatim>\<open>risultati\<close>, \<^verbatim>\<open>lista_finestre_log\<close> and the
  calls made so far; an exception ends the loop with the calls made up to it.
\<close>

function ciclo_finestre ::
  "mondo \<Rightarrow> tile list \<Rightarrow> statistiche_config \<Rightarrow> int \<Rightarrow> datetime \<Rightarrow> datetime
    \<Rightarrow> (datetime \<times> stats) list \<times> voce_log list \<times> chiamata list
    \<Rightarrow> chiamata list \<times> (errore + (datetime \<times> stats) list \<times> voce_log list)" where
  "ciclo_finestre w file_con_timestamp statistiche_config durata max_time_effettivo corrente
       (risultati, lista_finestre_log, chiamate) =
     (if corrente + durata \<le> max_time_effettivo
      then
        (case valuta_finestra w file_con_timestamp statistiche_config corrente
                (corrente + durata) of
           Inl e \<Rightarrow>
             (chiamate @ [(file_con_timestamp, corrente, corrente + durata)], Inl e)
         | Inr None \<Rightarrow>
             ciclo_finestre w file_con_timestamp statistiche_config durata max_time_effettivo
               (corrente + ORA)
               (risultati, lista_finestre_log,
                chiamate @ [(file_con_timestamp, corrente, corrente + durata)])
         | Inr (Some (st, file_inclusi)) \<Rightarrow>
             ciclo_finestre w file_con_timestamp statistiche_config durata max_time_effettivo
               (corrente + ORA)
               (risultati @ [(corrente, st)],
                lista_finestre_log @ [(corrente, corrente + durata, st, file_inclusi)],
                chiamate @ [(file_con_timestamp, corrente, corrente + durata)]))
      else (chiamate, Inr (risultati, lista_finestre_log)))"
  by pat_completeness auto
termination
  by (relation "measure (\<lambda>(w, ts, c, d, m, cor, st). nat (m - (cor + d) + 1))")
     (auto simp: ORA_def)

declare ciclo_finestre.simps [simp del]

text \<open>
  \<^verbatim>\<open>finestre_mobili_con_somma_e_ritaglio\<close>. The result is the list of the calls of
  \<^verbatim>\<open>somma_file_tif_finestra\<close> made, and either the exception that left the function or the
  pair \<^verbatim>\<open>(stats, lista_finestre_log)\<close> returned.
\<close>

definition finestre_mobili_con_somma_e_ritaglio ::
  "mondo \<Rightarrow> tile list \<Rightarrow> int \<Rightarrow> datetime \<Rightarrow> statistiche_config
    \<Rightarrow> chiamata list \<times> (errore + stats option \<times> voce_log list)" where
  "finestre_mobili_con_somma_e_ritaglio w file_con_timestamp durata_ore data_corrente
       statistiche_config =
     (if file_con_timestamp = [] then ([], Inr (None, []))
      else if \<not> carica_shp w then ([], Inr (None, []))
      else if durata_ore = 24 then
        (let file_data_corrente =
               filter (\<lambda>(file_path, timestamp). date_of timestamp = date_of data_corrente)
                 file_con_timestamp
         in if file_data_corrente = [] then ([], Inr (None, []))
            else
              (let inizio_giorno = mezzanotte data_corrente;
                   fine_giorno = inizio_giorno + GIORNO
               in ([(file_data_corrente, inizio_giorno, fine_giorno)],
                   (case somma_file_tif_finestra w file_data_corrente inizio_giorno
                           fine_giorno of
                      Inl e \<Rightarrow> Inl e
                    | Inr None \<Rightarrow> Inr (None, [])
                    | Inr (Some (raster_sommato, finestra_info, file_inclusi)) \<Rightarrow>
                        (case ritaglia_raster_sommato_con_shapefile w (Some raster_sommato) of
                           None \<Rightarrow> Inr (None, [])
                         | Some array_ritagliato \<Rightarrow>
                             (case calcola_statistiche_su_array_ritagliato
                                     (Some array_ritagliato) statistiche_config of
                                None \<Rightarrow> Inr (None, [])
                              | Some st \<Rightarrow>
                                  Inr (Some st,
                                       if st \<noteq> []
                                       then [(inizio_giorno, fine_giorno, st, file_inclusi)]
                                       else [])))))))
      else
        (let timestamps = map snd file_con_timestamp
         in if timestamps = [] then ([], Inr (None, []))
            else
              (let min_time = py_min timestamps;
                   max_time = py_max timestamps;
                   max_time_effettivo = max_time + timedelta_hours 1;
                   durata = timedelta_hours durata_ore
               in (case ciclo_finestre w file_con_timestamp statistiche_config durata
                          max_time_effettivo min_time ([], [], []) of
                     (chiamate, Inl e) \<Rightarrow> (chiamate, Inl e)
                   | (chiamate, Inr (risultati, lista_finestre_log)) \<Rightarrow>
                       (if risultati = [] then (chiamate, Inr (None, lista_finestre_log))
                        else (chiamate,
                              Inr (Some (snd (max_con_chiave (\<lambda>x. media_di (snd x))
                                                 (hd risultati) (tl risultati))),
                                   lista_finestre_log)))))))"

text \<open>
  The value of \<^verbatim>\<open>finestre_attese\<close> that a rolling search prints before its main loop.
\<close>

definition finestre_attese :: "tile list \<Rightarrow> int \<Rightarrow> nat" where
  "finestre_attese file_con_timestamp durata_ore =
     conta_finestre_attese (timedelta_hours durata_ore)
       (py_max (map snd file_con_timestamp) + timedelta_hours 1)
       (py_min (map snd file_con_timestamp)) 0"

section \<open>Archive integrity verifier\<close>

text \<open>
  What opening a tile of the archive shows: \<^verbatim>\<open>rasterio.open\<close> raises, the file has no band,
  \<^verbatim>\<open>read(1)\<close> raises, or band 1 is read.
\<close>

datatype stato_file = ApreFallisce string | SenzaBande | LetturaFallisce string | Leggibile

text \<open>
  An entry of \<^verbatim>\<open>os.listdir(path_giorno)\<close>: the file name, the joined path
  \<^verbatim>\<open>os.path.join(path_giorno, nome_file)\<close>, the value of \<^verbatim>\<open>estrai_timestamp(file_path)\<close>
  (\<open>None\<close> when the name holds no timestamp) and what opening the file shows. The archive
  gives, for a day number, the listing of the directory of that day, or \<open>None\<close> when the
  directory does not exist. A name whose digits are not a date, for which
  \<^verbatim>\<open>estrai_timestamp\<close> raises \<^verbatim>\<open>ValueError\<close>, is not described by an entry.
\<close>

record voce_dir =
  nome_file :: string
  percorso :: string
  timestamp_estratto :: "datetime option"
  stato :: stato_file

type_synonym archivio = "int \<Rightarrow> voce_dir list option"

text \<open>
  \<^verbatim>\<open>FileIntegrityReport\<close>. An entry keeps the day of \<^verbatim>\<open>data\<close> as a day number and the
  timestamp (the fields \<^verbatim>\<open>'data'\<close> and \<^verbatim>\<open>'ora'\<close> are their formatted texts).
\<close>

record file_integrity_report =
  file_corrotti :: "(int \<times> datetime \<times> string \<times> string) list"
  file_mancanti :: "(int \<times> datetime) list"
  file_validi :: "(int \<times> datetime \<times> string) list"
  giorni_analizzati :: "int set"

definition report_vuoto :: file_integrity_report where
  "report_vuoto =
     \<lparr>file_corrotti = [], file_mancanti = [], file_validi = [], giorni_analizzati = {}\<rparr>"

definition aggiungi_file_corrotto ::
  "file_integrity_report \<Rightarrow> datetime \<Rightarrow> datetime \<Rightarrow> string \<Rightarrow> string \<Rightarrow> file_integrity_report"
  where
  "aggiungi_file_corrotto report data ora percorso_file errore_testo =
     report\<lparr>file_corrotti :=
              file_corrotti report @ [(date_of data, ora, percorso_file, errore_testo)]\<rparr>"

definition aggiungi_file_mancante ::
  "file_integrity_report \<Rightarrow> datetime \<Rightarrow> datetime \<Rightarrow> file_integrity_report" where
  "aggiungi_file_mancante report data ora_attesa =
     report\<lparr>file_mancanti := file_mancanti report @ [(date_of data, ora_attesa)]\<rparr>"

definition aggiungi_file_valido ::
  "file_integrity_report \<Rightarrow> datetime \<Rightarrow> datetime \<Rightarrow> string \<Rightarrow> file_integrity_report" where
  "aggiungi_file_valido report data ora percorso_file =
     report\<lparr>file_validi := file_validi report @ [(date_of data, ora, percorso_file)]\<rparr>"

definition endswith :: "string \<Rightarrow> string \<Rightarrow> bool" where
  "endswith s suffisso \<longleftrightarrow>
     length suffisso \<le> length s \<and> drop (length s - length suffisso) s = suffisso"

definition minuto :: "datetime \<Rightarrow> int" where
  "minuto t = (t div 60) mod 60"

definition secondo :: "datetime \<Rightarrow> int" where
  "secondo t = t mod 60"

text \<open>
  The body of the loop over the directory listing (lines 484--512). The dictionary
  \<^verbatim>\<open>file_trovati\<close> receives a timestamp only in the branch of a tile that was read.
\<close>

definition scansiona_file ::
  "datetime \<Rightarrow> voce_dir \<Rightarrow> file_integrity_report \<times> (datetime \<rightharpoonup> string)
     \<Rightarrow> file_integrity_report \<times> (datetime \<rightharpoonup> string)" where
  "scansiona_file data_corrente v acc =
     (case acc of (report, file_trovati) \<Rightarrow>
        if endswith (nome_file v) ''.tif'' then
          (case timestamp_estratto v of
             None \<Rightarrow> (report, file_trovati)
           | Some timestamp \<Rightarrow>
               if minuto timestamp = 0 \<and> secondo timestamp = 0 then
                 (case stato v of
                    ApreFallisce e \<Rightarrow>
                      (aggiungi_file_corrotto report data_corrente timestamp (percorso v) e,
                       file_trovati)
                  | SenzaBande \<Rightarrow>
                      (aggiungi_file_corrotto report data_corrente timestamp (percorso v)
                         ''File senza bande raster'',
                       file_trovati)
                  | LetturaFallisce e \<Rightarrow>
                      (aggiungi_file_corrotto report data_corrente timestamp (percorso v) e,
                       file_trovati)
                  | Leggibile \<Rightarrow>
                      (aggiungi_file_valido report data_corrente timestamp (percorso v),
                       file_trovati(timestamp \<mapsto> percorso v)))
               else (report, file_trovati))
        else (report, file_trovati))"

text \<open>
  An entry of the listing is a top-of-hour tile of timestamp \<open>t\<close> that was read: the only
  entries for which \<^verbatim>\<open>file_trovati\<close> receives \<open>t\<close>.
\<close>

definition tile_letto :: "voce_dir \<Rightarrow> datetime \<Rightarrow> bool" where
  "tile_letto v t \<longleftrightarrow>
     endswith (nome_file v) ''.tif'' \<and> timestamp_estratto v = Some t
     \<and> minuto t = 0 \<and> secondo t = 0 \<and> stato v = Leggibile"

text \<open>The two loops \<^verbatim>\<open>for ora in range(24)\<close> (lines 476--478 and 515--518).\<close>

definition ora_attesa :: "datetime \<Rightarrow> nat \<Rightarrow> datetime" where
  "ora_attesa data_corrente ora = mezzanotte data_corrente + int ora * ORA"

definition segna_mancanti ::
  "datetime \<Rightarrow> (datetime \<rightharpoonup> string) \<Rightarrow> file_integrity_report \<Rightarrow> file_integrity_report" where
  "segna_mancanti data_corrente file_trovati report =
     fold (\<lambda>ora r. if file_trovati (ora_attesa data_corrente ora) = None
                    then aggiungi_file_mancante r data_corrente (ora_attesa data_corrente ora)
                    else r)
       [0..<24] report"

text \<open>The body of the loop over \<^verbatim>\<open>date_range\<close> (lines 462--518).\<close>

definition verifica_giorno ::
  "archivio \<Rightarrow> datetime \<Rightarrow> file_integrity_report \<Rightarrow> file_integrity_report" where
  "verifica_giorno arch data_corrente report0 =
     (let report = report0\<lparr>giorni_analizzati :=
                             insert (date_of data_corrente) (giorni_analizzati report0)\<rparr>
      in case arch (date_of data_corrente) of
           None \<Rightarrow> segna_mancanti data_corrente Map.empty report
         | Some elenco \<Rightarrow>
             (case fold (scansiona_file data_corrente) elenco (report, Map.empty) of
                (report', file_trovati) \<Rightarrow> segna_mancanti data_corrente file_trovati report'))"

text \<open>\<^verbatim>\<open>pd.date_range(data_inizio, data_fine)\<close>: one value a day from the start, up to the end.\<close>

definition date_range :: "datetime \<Rightarrow> datetime \<Rightarrow> datetime list" where
  "date_range data_inizio data_fine =
     map (\<lambda>k. data_inizio + int k * GIORNO)
       [0..<nat ((data_fine - data_inizio) div GIORNO + 1)]"

definition verifica_integrita_archivio ::
  "archivio \<Rightarrow> datetime \<Rightarrow> datetime \<Rightarrow> file_integrity_report" where
  "verifica_integrita_archivio arch data_inizio data_fine =
     fold (verifica_giorno arch) (date_range data_inizio data_fine) report_vuoto"

section \<open>Equivalent-rainfall model\<close>

text \<open>
  The value of a floating-point expression of \<^verbatim>\<open>calcola_peq0\<close>: a finite number (rounding
  is not modelled), not-a-number, or an infinity. The only exception the function can raise
  is \<^verbatim>\<open>ZeroDivisionError\<close>, from the division of Python floats \<^verbatim>\<open>25400 / CN\<close>; the other
  operations involve a numpy scalar (\<^verbatim>\<open>np.sqrt\<close> and \<^verbatim>\<open>np.maximum\<close> return one), for which a
  division by zero gives not-a-number or an infinity and the square root of a negative
  number gives not-a-number.
\<close>

datatype valore_float = Finito real | NonNumero | PiuInfinito | MenoInfinito

datatype errore_py = ZeroDivisionError

definition LAMBDA_PEQ :: real where
  "LAMBDA_PEQ = 0.2"

definition calcola_peq0 :: "real \<Rightarrow> real \<Rightarrow> real \<Rightarrow> errore_py + valore_float" where
  "calcola_peq0 P5 CN lam =
     (if CN = 0 then Inl ZeroDivisionError
      else
        (let S = 25400 / CN - 254;
             sqrt_term = S * (P5 + ((1 - lam) / 2)\<^sup>2 * S)
         in if sqrt_term < 0 then Inr NonNumero
            else
              (let M = max (sqrt sqrt_term - ((1 + lam) / 2) * S) 0
               in if S + M = 0
                  then (if lam * S = 0 then Inr NonNumero
                        else if M = 0 then Inr NonNumero
                        else if 0 < lam * S then Inr PiuInfinito
                        else Inr MenoInfinito)
                  else Inr (Finito (M * (1 + lam * S / (S + M)))))))"

text \<open>
  The function applied to each cell of a zone column (line 165); a cell is a number or
  missing (\<open>None\<close>, for which \<^verbatim>\<open>pd.notna\<close> is false).
\<close>

definition peq0_cella :: "real \<Rightarrow> real option \<Rightarrow> errore_py + valore_float" where
  "peq0_cella cn_value p5 =
     (case p5 of
        None \<Rightarrow> Inr (Finito 0)
      | Some v \<Rightarrow> if 0 < v then calcola_peq0 v cn_value LAMBDA_PEQ else Inr (Finito 0))"

text \<open>\<^verbatim>\<open>Series.apply\<close>: the cells in order; the first exception raised leaves the function.\<close>

fun series_apply :: "('a \<Rightarrow> 'e + 'b) \<Rightarrow> 'a list \<Rightarrow> 'e + 'b list" where
  "series_apply f [] = Inr []"
| "series_apply f (x # xs) =
     (case f x of
        Inl e \<Rightarrow> Inl e
      | Inr y \<Rightarrow> (case series_apply f xs of Inl e \<Rightarrow> Inl e | Inr ys \<Rightarrow> Inr (y # ys)))"

section \<open>Result tables\<close>

text \<open>
  A \<^verbatim>\<open>DataFrame\<close> of the program: the column \<^verbatim>\<open>'Data'\<close> (dates, as day numbers) and the
  other columns in order, each with its name and one cell per row. A cell of a table of
  statistics is a number or missing (\<open>None\<close>, pandas' \<^verbatim>\<open>NaN\<close>).
\<close>

record 'a dataframe =
  Data :: "int list"
  colonne :: "(string \<times> 'a list) list"

definition columns :: "'a dataframe \<Rightarrow> string list" where
  "columns df = ''Data'' # map fst (colonne df)"

text \<open>\<^verbatim>\<open>[col for col in df.columns if col != 'Data']\<close>\<close>

definition zone_columns :: "'a dataframe \<Rightarrow> string list" where
  "zone_columns df = filter (\<lambda>col. col \<noteq> ''Data'') (columns df)"

text \<open>\<^verbatim>\<open>df[col]\<close> for a column other than \<^verbatim>\<open>'Data'\<close>, and the assignment \<^verbatim>\<open>df[col] = valori\<close>.\<close>

definition colonna :: "'a dataframe \<Rightarrow> string \<Rightarrow> 'a list option" where
  "colonna df col = map_of (colonne df) col"

definition assegna :: "'a dataframe \<Rightarrow> string \<Rightarrow> 'a list \<Rightarrow> 'a dataframe" where
  "assegna df col valori =
     (if col \<in> set (map fst (colonne df))
      then df\<lparr>colonne := map (\<lambda>(n, c). if n = col then (n, valori) else (n, c)) (colonne df)\<rparr>
      else df\<lparr>colonne := colonne df @ [(col, valori)]\<rparr>)"

text \<open>A missing cell read as zero.\<close>

definition nan0 :: "real option \<Rightarrow> real" where
  "nan0 x = (case x of None \<Rightarrow> 0 | Some v \<Rightarrow> v)"




definition fillna :: "real \<Rightarrow> real option list \<Rightarrow> real option list" where
  "fillna v xs = map (\<lambda>x. case x of None \<Rightarrow> Some v | Some y \<Rightarrow> Some y) xs"


text \<open>
  \<^verbatim>\<open>calcola_peq0_per_tutte_zone\<close>: the copy of the table of cumulated rainfall, each zone
  column replaced by the equivalent rainfall of its cells when \<^verbatim>\<open>zone_cn\<close> has the zone, by
  zeros otherwise. An exception raised for a cell leaves the function.
\<close>

definition da_cella :: "real option \<Rightarrow> valore_float" where
  "da_cella x = (case x of None \<Rightarrow> NonNumero | Some v \<Rightarrow> Finito v)"

definition calcola_peq0_per_tutte_zone ::
  "real option dataframe \<Rightarrow> (string \<rightharpoonup> real) \<Rightarrow> errore_py + valore_float dataframe" where
  "calcola_peq0_per_tutte_zone cum_5d zone_cn =
     fold (\<lambda>col acc.
             case acc of
               Inl e \<Rightarrow> Inl e
             | Inr peq0_df \<Rightarrow>
                 (case zone_cn col of
                    Some cn_value \<Rightarrow>
                      (case colonna cum_5d col of
                         None \<Rightarrow> Inr peq0_df
                       | Some serie \<Rightarrow>
                           (case series_apply (peq0_cella cn_value) serie of
                              Inl e \<Rightarrow> Inl e
                            | Inr valori \<Rightarrow> Inr (assegna peq0_df col valori)))
                  | None \<Rightarrow>
                      Inr (assegna peq0_df col (replicate (length (Data cum_5d)) (Finito 0)))))
       (zone_columns cum_5d)
       (Inr \<lparr>Data = Data cum_5d,
             colonne = map (\<lambda>(n, c). (n, map da_cella c)) (colonne cum_5d)\<rparr>)"

text \<open>
  \<^verbatim>\<open>DataFrame.merge(right, on='Data', how='left', suffixes=('', suffisso))\<close>. The rows of
  the result are pairs of row positions: every row of the left table, in order, with each
  row of the right table that has the same date, or alone when there is none. The columns
  are those of the left table under their names (the left suffix is empty), then those of
  the right table, renamed with the suffix when the left table has a column of that name;
  a row without a right partner has missing cells in the right columns. The model is that
  of a merge whose renamed columns are all different; where the suffix makes two columns
  of one name, pandas raises \<^verbatim>\<open>MergeError\<close> or returns a table with a repeated name, and
  the model does not describe it.
\<close>

definition accoppia :: "int list \<Rightarrow> int list \<Rightarrow> (nat \<times> nat option) list" where
  "accoppia sinistra destra =
     concat (map (\<lambda>i. let trovati = filter (\<lambda>j. destra ! j = sinistra ! i) [0..<length destra]
                       in if trovati = [] then [(i, None)] else map (\<lambda>j. (i, Some j)) trovati)
               [0..<length sinistra])"

definition pd_merge_left ::
  "real option dataframe \<Rightarrow> real option dataframe \<Rightarrow> string \<Rightarrow> real option dataframe" where
  "pd_merge_left sx dx suffisso =
     (let coppie = accoppia (Data sx) (Data dx)
      in \<lparr>Data = map (\<lambda>(i, j). Data sx ! i) coppie,
          colonne =
            map (\<lambda>(n, c). (n, map (\<lambda>(i, j). c ! i) coppie)) (colonne sx)
            @ map (\<lambda>(n, c). (if n \<in> set (map fst (colonne sx)) then n @ suffisso else n,
                               map (\<lambda>(i, j). case j of None \<Rightarrow> None | Some j' \<Rightarrow> c ! j') coppie))
                (colonne dx)\<rparr>)"

text \<open>The sum of two series with the same index: missing when either cell is missing.\<close>

definition serie_somma :: "real option list \<Rightarrow> real option list \<Rightarrow> real option list" where
  "serie_somma a b =
     map2 (\<lambda>x y. case x of None \<Rightarrow> None
                  | Some u \<Rightarrow> (case y of None \<Rightarrow> None | Some v \<Rightarrow> Some (u + v))) a b"

text \<open>
  \<^verbatim>\<open>sort_values('Data').reset_index(drop=True)\<close>: the rows in increasing order of date (rows
  of equal date keep their order).
\<close>

definition sort_values_Data :: "'a dataframe \<Rightarrow> 'a dataframe" where
  "sort_values_Data df =
     (let ordine = sort_key (\<lambda>i. Data df ! i) [0..<length (Data df)]
      in \<lparr>Data = map (nth (Data df)) ordine,
          colonne = map (\<lambda>(n, c). (n, map (nth c) ordine)) (colonne df)\<rparr>)"

text \<open>\<^verbatim>\<open>somma_statistiche_con_peq0\<close>\<close>

definition somma_statistiche_con_peq0 ::
  "real option dataframe \<Rightarrow> real option dataframe \<Rightarrow> real option dataframe" where
  "somma_statistiche_con_peq0 df_statistica df_peq0 =
     (let merged = pd_merge_left df_statistica df_peq0 ''_peq0'';
          zone = zone_columns df_statistica;
          result =
            fold (\<lambda>col result.
                    case colonna merged col of
                      None \<Rightarrow> result
                    | Some serie \<Rightarrow>
                        (case (if col @ ''_peq0'' \<in> set (columns merged)
                               then colonna merged (col @ ''_peq0'') else None) of
                           Some serie_peq0 \<Rightarrow>
                             assegna result col (serie_somma (fillna 0 serie) (fillna 0 serie_peq0))
                         | None \<Rightarrow> assegna result col (fillna 0 serie)))
              zone \<lparr>Data = Data merged, colonne = []\<rparr>
      in sort_values_Data result)"

text \<open>
  The column that the loop of \<^verbatim>\<open>somma_statistiche_con_peq0\<close> assigns for a zone: nothing
  when the merged table has no such column.
\<close>

definition serie_con_peq0 :: "real option dataframe \<Rightarrow> string \<Rightarrow> real option list option" where
  "serie_con_peq0 merged col =
     (case colonna merged col of
        None \<Rightarrow> None
      | Some serie \<Rightarrow>
          Some (case colonna merged (col @ ''_peq0'') of
                  Some serie_peq0 \<Rightarrow> serie_somma (fillna 0 serie) (fillna 0 serie_peq0)
                | None \<Rightarrow> fillna 0 serie))"

text \<open>
  Reading a table by date and zone: the position of the first row with the date, the cell
  of a date and a zone (\<open>None\<close> when the table has no such row or no such column), and the
  value with everything missing read as zero.
\<close>

definition trova :: "int list \<Rightarrow> int \<Rightarrow> nat option" where
  "trova xs d = (case filter (\<lambda>j. xs ! j = d) [0..<length xs] of [] \<Rightarrow> None | j # _ \<Rightarrow> Some j)"

definition cella :: "'a dataframe \<Rightarrow> int \<Rightarrow> string \<Rightarrow> 'a option" where
  "cella df d z =
     (case trova (Data df) d of
        None \<Rightarrow> None
      | Some i \<Rightarrow> (case colonna df z of None \<Rightarrow> None | Some c \<Rightarrow> Some (c ! i)))"

definition valore0 :: "real option dataframe \<Rightarrow> int \<Rightarrow> string \<Rightarrow> real" where
  "valore0 df d z = (case cella df d z of None \<Rightarrow> 0 | Some x \<Rightarrow> nan0 x)"









section \<open>Example inputs\<close>

text \<open>
  Three hourly tiles of one row of two pixels, the second pixel being no-data; a polygon that
  loads and a mask that keeps every pixel.
\<close>

definition una_riga :: "real list \<Rightarrow> raster" where
  "una_riga xs = \<lparr>n_righe = 1, n_colonne = length xs, pixel = xs\<rparr>"

definition mondo_esempio :: mondo where
  "mondo_esempio =
     \<lparr>leggi_banda = (\<lambda>p. if p = ''a.tif'' then Some (una_riga [1, - 9999])
                          else if p = ''b.tif'' then Some (una_riga [3, - 9999])
                          else if p = ''c.tif'' then Some (una_riga [3, - 9999])
                          else None),
      carica_shp = True,
      maschera = (\<lambda>r. Some (pixel r))\<rparr>"

text \<open>The same tiles, the first of which cannot be opened.\<close>

definition mondo_primo_illeggibile :: mondo where
  "mondo_primo_illeggibile =
     \<lparr>leggi_banda = (\<lambda>p. if p = ''a.tif'' then None else Some (una_riga [1, 2])),
      carica_shp = True,
      maschera = (\<lambda>r. Some (pixel r))\<rparr>"

definition tre_tile :: "tile list" where
  "tre_tile = [(''a.tif'', 0), (''b.tif'', 3600), (''c.tif'', 7200)]"

definition log_esempio :: "voce_log list" where
  "log_esempio =
     [(0, 3600, [(''media'', 1)], [''a.tif'']),
      (3600, 7200, [(''media'', 3)], [''b.tif'']),
      (7200, 10800, [(''media'', 3)], [''c.tif''])]"

text \<open>
  An archive whose only directory is the one of day 0, holding one top-of-hour tile, the one
  of 09:00, that cannot be opened.
\<close>

definition archivio_esempio :: archivio where
  "archivio_esempio =
     (\<lambda>giorno. if giorno = 0
        then Some [\<lparr>nome_file = ''radar_20230105090000.tif'',
                    percorso = ''2023/01/05/radar_20230105090000.tif'',
                    timestamp_estratto = Some 32400,
                    stato = ApreFallisce ''not recognized as a supported file format''\<rparr>]
        else None)"


text \<open>
  A base table with one date and a Peq0 table with that date and the following one.
\<close>

definition base_esempio :: "real option dataframe" where
  "base_esempio = \<lparr>Data = [1], colonne = [(''IM_01'', [Some 10]), (''IM_02'', [None])]\<rparr>"

definition peq0_esempio :: "real option dataframe" where
  "peq0_esempio =
     \<lparr>Data = [1, 2], colonne = [(''IM_01'', [Some 3, Some 5]), (''IM_02'', [Some 4, Some 6])]\<rparr>"



section \<open>Properties of the window summation engine\<close>

lemmas somma_raster_simps =
  somma_raster_def compatibili_def lunghezza_comune_def pixel_a_def una_riga_def Let_def

lemma seleziona_finestra_acc:
  "seleziona_finestra tiles a b (ff, ti) =
     (ff @ map fst (filter (\<lambda>(p, t). a \<le> t \<and> t < b) tiles),
      ti @ map snd (filter (\<lambda>(p, t). a \<le> t \<and> t < b) tiles))"
proof (induction tiles arbitrary: ff ti)
  case Nil
  show ?case by simp
next
  case (Cons x tiles)
  obtain p t where x: "x = (p, t)" by (cases x)
  show ?case
  proof (cases "a \<le> t \<and> t < b")
    case True
    then show ?thesis by (simp add: x Cons.IH)
  next
    case False
    then show ?thesis by (simp add: x Cons.IH)
  qed
qed

lemma seleziona_finestra_filter:
  "seleziona_finestra tiles a b ([], []) =
     (map fst (filter (\<lambda>(p, t). a \<le> t \<and> t < b) tiles),
      map snd (filter (\<lambda>(p, t). a \<le> t \<and> t < b) tiles))"
  by (simp add: seleziona_finestra_acc)

lemma somma_file_tif_finestra_inclusi:
  "(somma_file_tif_finestra w tiles a b = Inr None)
     = (filter (\<lambda>(p, t). a \<le> t \<and> t < b) tiles = [])"
  "somma_file_tif_finestra w tiles a b = Inr (Some (dati, finestra, inclusi))
     \<Longrightarrow> inclusi = map (\<lambda>(p, t). basename p) (filter (\<lambda>(p, t). a \<le> t \<and> t < b) tiles)
         \<and> finestra = (a, b)"
  by (auto simp: somma_file_tif_finestra_def seleziona_finestra_filter case_prod_beta comp_def
           split: list.splits option.splits)

text \<open>
  The sum of tiles that share a shape: the tiles of the list are read and added pixel by
  pixel, in order.
\<close>

lemma indice_pixel:
  assumes "k < h * (l :: nat)"
  shows "(if h = 1 then 0 else k div l) * l + (if l = 1 then 0 else k mod l) = k"
proof -
  from assms have l: "0 < l" by (cases l) simp_all
  show ?thesis
  proof (cases "h = 1")
    case True
    with assms have "k < l" by simp
    then show ?thesis using True by (cases "l = 1") simp_all
  next
    case False
    then show ?thesis by (cases "l = 1") simp_all
  qed
qed

lemma somma_raster_stessa_forma:
  assumes "n_righe a = h" "n_colonne a = l" "n_righe b = h" "n_colonne b = l"
  shows "somma_raster a b
     = Some \<lparr>n_righe = h, n_colonne = l,
             pixel = map (\<lambda>k. pixel a ! k + pixel b ! k) [0..<h * l]\<rparr>"
proof -
  have "map (\<lambda>k. pixel_a a (k div l) (k mod l) + pixel_a b (k div l) (k mod l)) [0..<h * l]
      = map (\<lambda>k. pixel a ! k + pixel b ! k) [0..<h * l]"
    using assms by (auto simp: pixel_a_def indice_pixel)
  with assms show ?thesis
    by (simp add: somma_raster_def compatibili_def lunghezza_comune_def Let_def)
qed

lemma somma_resto_pixel:
  assumes "\<forall>p \<in> set ps. leggi_banda w p = Some (r p) \<and> n_righe (r p) = h \<and> n_colonne (r p) = l"
    and "n_righe acc = h" "n_colonne acc = l" "pixel acc = map A [0..<h * l]"
  shows "somma_resto w acc ps
     = \<lparr>n_righe = h, n_colonne = l,
        pixel = map (\<lambda>k. A k + (\<Sum>p\<leftarrow>ps. pixel (r p) ! k)) [0..<h * l]\<rparr>"
  using assms
proof (induction ps arbitrary: acc A)
  case Nil
  then show ?case by simp
next
  case (Cons p ps)
  from Cons.prems(1) have rp: "leggi_banda w p = Some (r p)" "n_righe (r p) = h"
    "n_colonne (r p) = l" by simp_all
  let ?s = "\<lparr>n_righe = h, n_colonne = l,
             pixel = map (\<lambda>k. pixel acc ! k + pixel (r p) ! k) [0..<h * l]\<rparr>"
  have sr: "somma_raster acc (r p) = Some ?s"
    by (rule somma_raster_stessa_forma [OF Cons.prems(2,3) rp(2,3)])
  have px: "pixel ?s = map (\<lambda>k. A k + pixel (r p) ! k) [0..<h * l]"
    using Cons.prems(4) by simp
  from Cons.prems(1) have rest: "\<forall>p \<in> set ps. leggi_banda w p = Some (r p)
      \<and> n_righe (r p) = h \<and> n_colonne (r p) = l" by simp
  have "somma_resto w ?s ps = \<lparr>n_righe = h, n_colonne = l,
        pixel = map (\<lambda>k. (A k + pixel (r p) ! k) + (\<Sum>p\<leftarrow>ps. pixel (r p) ! k)) [0..<h * l]\<rparr>"
    by (rule Cons.IH [OF rest _ _ px]) simp_all
  with rp sr show ?case
    by (simp add: add.assoc)
qed

lemma somma_file_tif_finestra_pixel:
  assumes "seleziona_finestra tiles a b ([], []) = (ff, ti)" and "ff \<noteq> []"
    and "\<forall>p \<in> set ff. leggi_banda w p = Some (r p) \<and> n_righe (r p) = h \<and> n_colonne (r p) = l
            \<and> length (pixel (r p)) = h * l"
  shows "somma_file_tif_finestra w tiles a b
     = Inr (Some (\<lparr>n_righe = h, n_colonne = l,
                    pixel = map (\<lambda>k. \<Sum>p\<leftarrow>ff. pixel (r p) ! k) [0..<h * l]\<rparr>,
                  (a, b), map basename ff))"
proof -
  from assms(2) obtain p ps where ff: "ff = p # ps" by (cases ff) auto
  from assms(3) have rp: "leggi_banda w p = Some (r p)" "n_righe (r p) = h"
    "n_colonne (r p) = l" "length (pixel (r p)) = h * l" by (simp_all add: ff)
  from assms(3) have rest: "\<forall>p \<in> set ps. leggi_banda w p = Some (r p)
      \<and> n_righe (r p) = h \<and> n_colonne (r p) = l" by (simp add: ff)
  have px: "pixel (r p) = map (\<lambda>k. pixel (r p) ! k) [0..<h * l]"
    using rp(4) by (metis map_nth)
  have "somma_resto w (r p) ps = \<lparr>n_righe = h, n_colonne = l,
        pixel = map (\<lambda>k. pixel (r p) ! k + (\<Sum>p\<leftarrow>ps. pixel (r p) ! k)) [0..<h * l]\<rparr>"
    by (rule somma_resto_pixel [OF rest rp(2,3) px])
  with assms(1) rp(1) show ?thesis
    by (simp add: somma_file_tif_finestra_def ff)
qed

lemma somma_file_tif_finestra_solo_finestra:
  "somma_file_tif_finestra w tiles a b
     = somma_file_tif_finestra w (filter (\<lambda>(p, t). a \<le> t \<and> t < b) tiles) a b"
  by (simp add: somma_file_tif_finestra_def seleziona_finestra_filter)

lemma somma_file_tif_finestra_dati:
  assumes "seleziona_finestra tiles a b ([], []) = (ff, ti)"
    and "somma_file_tif_finestra w tiles a b = Inr (Some (dati, finestra, inclusi))"
  shows "ff \<noteq> [] \<and> (\<exists>d0. leggi_banda w (hd ff) = Some d0 \<and> dati = somma_resto w d0 (tl ff))"
  using assms
  by (auto simp: somma_file_tif_finestra_def split: list.splits option.splits)

text \<open>
  Claim C1. The tiles selected for a window \<open>[finestra_inizio, finestra_fine)\<close> are exactly the
  tiles of the input list, in order, whose timestamp \<open>t\<close> satisfies
  \<open>finestra_inizio \<le> t < finestra_fine\<close>: a tile of the list is selected if and only if its
  timestamp lies in the half-open window, a tile at \<open>finestra_fine\<close> is never selected and a
  tile at \<open>finestra_inizio\<close> is selected (the window being non-empty). The summation returns
  nothing exactly when no tile is selected; its result does not change when the tiles
  outside the window are removed from the list; the tiles it reports are the selected ones;
  the raster it returns is the first selected tile with the other selected tiles added; and
  when the selected tiles are readable and share a shape, every pixel of the raster returned
  is the sum of that pixel over the selected tiles, and over no other tile.
\<close>

theorem finestra_semiaperta:
  assumes "seleziona_finestra tiles finestra_inizio finestra_fine ([], [])
             = (file_finestra, timestamp_inclusi)"
  shows "zip file_finestra timestamp_inclusi
           = filter (\<lambda>(p, t). finestra_inizio \<le> t \<and> t < finestra_fine) tiles
       \<and> (\<forall>(p, t) \<in> set tiles.
             ((p, t) \<in> set (zip file_finestra timestamp_inclusi))
               = (finestra_inizio \<le> t \<and> t < finestra_fine))
       \<and> (\<forall>p. (p, finestra_fine) \<notin> set (zip file_finestra timestamp_inclusi))
       \<and> (\<forall>p. finestra_inizio < finestra_fine \<longrightarrow> (p, finestra_inizio) \<in> set tiles
             \<longrightarrow> (p, finestra_inizio) \<in> set (zip file_finestra timestamp_inclusi))
       \<and> (somma_file_tif_finestra w tiles finestra_inizio finestra_fine = Inr None)
           = (zip file_finestra timestamp_inclusi = [])
       \<and> somma_file_tif_finestra w tiles finestra_inizio finestra_fine
           = somma_file_tif_finestra w
               (filter (\<lambda>(p, t). finestra_inizio \<le> t \<and> t < finestra_fine) tiles)
               finestra_inizio finestra_fine
       \<and> (\<forall>dati finestra inclusi.
             somma_file_tif_finestra w tiles finestra_inizio finestra_fine
               = Inr (Some (dati, finestra, inclusi))
             \<longrightarrow> inclusi = map basename file_finestra \<and> file_finestra \<noteq> []
                 \<and> (\<exists>d0. leggi_banda w (hd file_finestra) = Some d0
                          \<and> dati = somma_resto w d0 (tl file_finestra)))
       \<and> (\<forall>r h l.
             file_finestra \<noteq> []
             \<and> (\<forall>p \<in> set file_finestra.
                   leggi_banda w p = Some (r p) \<and> n_righe (r p) = h \<and> n_colonne (r p) = l
                   \<and> length (pixel (r p)) = h * l)
             \<longrightarrow> somma_file_tif_finestra w tiles finestra_inizio finestra_fine
                   = Inr (Some (\<lparr>n_righe = h, n_colonne = l,
                                  pixel = map (\<lambda>k. \<Sum>p\<leftarrow>file_finestra. pixel (r p) ! k)
                                            [0..<h * l]\<rparr>,
                                (finestra_inizio, finestra_fine),
                                map basename file_finestra)))"
proof -
  from assms have ff: "file_finestra
      = map fst (filter (\<lambda>(p, t). finestra_inizio \<le> t \<and> t < finestra_fine) tiles)"
    and ti: "timestamp_inclusi
      = map snd (filter (\<lambda>(p, t). finestra_inizio \<le> t \<and> t < finestra_fine) tiles)"
    by (simp_all add: seleziona_finestra_filter)
  have z: "zip file_finestra timestamp_inclusi
           = filter (\<lambda>(p, t). finestra_inizio \<le> t \<and> t < finestra_fine) tiles"
    unfolding ff ti by (simp add: zip_map_fst_snd)
  have n: "(somma_file_tif_finestra w tiles finestra_inizio finestra_fine = Inr None)
           = (zip file_finestra timestamp_inclusi = [])"
    unfolding z by (rule somma_file_tif_finestra_inclusi(1))
  have f: "somma_file_tif_finestra w tiles finestra_inizio finestra_fine
           = somma_file_tif_finestra w
               (filter (\<lambda>(p, t). finestra_inizio \<le> t \<and> t < finestra_fine) tiles)
               finestra_inizio finestra_fine"
    by (rule somma_file_tif_finestra_solo_finestra)
  have i: "\<forall>dati finestra inclusi.
             somma_file_tif_finestra w tiles finestra_inizio finestra_fine
               = Inr (Some (dati, finestra, inclusi))
             \<longrightarrow> inclusi = map basename file_finestra \<and> file_finestra \<noteq> []
                 \<and> (\<exists>d0. leggi_banda w (hd file_finestra) = Some d0
                          \<and> dati = somma_resto w d0 (tl file_finestra))"
  proof (intro allI impI)
    fix dati finestra inclusi
    assume s: "somma_file_tif_finestra w tiles finestra_inizio finestra_fine
               = Inr (Some (dati, finestra, inclusi))"
    from somma_file_tif_finestra_inclusi(2) [OF s]
    have "inclusi = map basename file_finestra"
      unfolding ff by (simp add: case_prod_beta comp_def)
    with somma_file_tif_finestra_dati [OF assms s]
    show "inclusi = map basename file_finestra \<and> file_finestra \<noteq> []
                 \<and> (\<exists>d0. leggi_banda w (hd file_finestra) = Some d0
                          \<and> dati = somma_resto w d0 (tl file_finestra))"
      by simp
  qed
  have p: "\<forall>r h l.
             file_finestra \<noteq> []
             \<and> (\<forall>p \<in> set file_finestra.
                   leggi_banda w p = Some (r p) \<and> n_righe (r p) = h \<and> n_colonne (r p) = l
                   \<and> length (pixel (r p)) = h * l)
             \<longrightarrow> somma_file_tif_finestra w tiles finestra_inizio finestra_fine
                   = Inr (Some (\<lparr>n_righe = h, n_colonne = l,
                                  pixel = map (\<lambda>k. \<Sum>p\<leftarrow>file_finestra. pixel (r p) ! k)
                                            [0..<h * l]\<rparr>,
                                (finestra_inizio, finestra_fine),
                                map basename file_finestra))"
    using somma_file_tif_finestra_pixel [OF assms] by blast
  have r: "(\<forall>(p, t) \<in> set tiles.
             ((p, t) \<in> set (zip file_finestra timestamp_inclusi))
               = (finestra_inizio \<le> t \<and> t < finestra_fine))
       \<and> (\<forall>p. (p, finestra_fine) \<notin> set (zip file_finestra timestamp_inclusi))
       \<and> (\<forall>p. finestra_inizio < finestra_fine \<longrightarrow> (p, finestra_inizio) \<in> set tiles
             \<longrightarrow> (p, finestra_inizio) \<in> set (zip file_finestra timestamp_inclusi))"
    unfolding z by auto
  from z n f i p r show ?thesis
    by blast
qed


lemma somma_esempio_finestra:
  "somma_file_tif_finestra mondo_esempio tre_tile 0 7200
     = Inr (Some (una_riga [4, - 19998], (0, 7200), [''a.tif'', ''b.tif'']))"
  by (simp add: somma_file_tif_finestra_def mondo_esempio_def tre_tile_def somma_raster_simps
        basename_def)

theorem finestra_semiaperta_witness:
  "seleziona_finestra tre_tile 0 7200 ([], []) = ([''a.tif'', ''b.tif''], [0, 3600])
   \<and> (''c.tif'', 7200) \<in> set tre_tile
   \<and> (''c.tif'', 7200) \<notin> set (zip [''a.tif'', ''b.tif''] [0, 3600 :: int])
   \<and> (''a.tif'', 0) \<in> set (zip [''a.tif'', ''b.tif''] [0, 3600 :: int])
   \<and> leggi_banda mondo_esempio ''a.tif'' = Some (una_riga [1, - 9999])
   \<and> leggi_banda mondo_esempio ''b.tif'' = Some (una_riga [3, - 9999])
   \<and> leggi_banda mondo_esempio ''c.tif'' = Some (una_riga [3, - 9999])
   \<and> somma_file_tif_finestra mondo_esempio tre_tile 0 7200
       = Inr (Some (\<lparr>n_righe = 1, n_colonne = 2,
                      pixel = map (\<lambda>k. \<Sum>p\<leftarrow>[''a.tif'', ''b.tif''].
                                         pixel (the (leggi_banda mondo_esempio p)) ! k)
                                [0..<1 * 2]\<rparr>,
                    (0, 7200), map basename [''a.tif'', ''b.tif'']))
   \<and> somma_file_tif_finestra mondo_esempio tre_tile 0 7200
       = Inr (Some (una_riga [4, - 19998], (0, 7200), [''a.tif'', ''b.tif'']))"
proof -
  have h: "seleziona_finestra tre_tile 0 7200 ([], []) = ([''a.tif'', ''b.tif''], [0, 3600])"
    by (simp add: tre_tile_def)
  have l: "[''a.tif'', ''b.tif''] \<noteq> []
      \<and> (\<forall>p \<in> set [''a.tif'', ''b.tif''].
            leggi_banda mondo_esempio p = Some (the (leggi_banda mondo_esempio p))
            \<and> n_righe (the (leggi_banda mondo_esempio p)) = 1
            \<and> n_colonne (the (leggi_banda mondo_esempio p)) = 2
            \<and> length (pixel (the (leggi_banda mondo_esempio p))) = 1 * 2)"
    by (simp add: mondo_esempio_def una_riga_def)
  note t = finestra_semiaperta [OF h, of mondo_esempio]
  note q = t [THEN conjunct2, THEN conjunct2, THEN conjunct2, THEN conjunct2,
              THEN conjunct2, THEN conjunct2, THEN conjunct2, rule_format,
              of "\<lambda>p. the (leggi_banda mondo_esempio p)" 1 2]
  note s = q [OF l]
  have e: "(''c.tif'', 7200) \<in> set tre_tile
     \<and> (''c.tif'', 7200) \<notin> set (zip [''a.tif'', ''b.tif''] [0, 3600 :: int])
     \<and> (''a.tif'', 0) \<in> set (zip [''a.tif'', ''b.tif''] [0, 3600 :: int])
     \<and> leggi_banda mondo_esempio ''a.tif'' = Some (una_riga [1, - 9999])
     \<and> leggi_banda mondo_esempio ''b.tif'' = Some (una_riga [3, - 9999])
     \<and> leggi_banda mondo_esempio ''c.tif'' = Some (una_riga [3, - 9999])"
    by (simp add: tre_tile_def mondo_esempio_def)
  from h s e somma_esempio_finestra show ?thesis
    by blast
qed

text \<open>
  The tiles after the first one: an unreadable tile, or one of another size, changes nothing
  and the loop goes on with the tiles that follow.
\<close>

lemma somma_resto_salta:
  "leggi_banda w p = None \<Longrightarrow> somma_resto w d (ps @ p # qs) = somma_resto w d (ps @ qs)"
  by (induction ps arbitrary: d) (auto split: option.splits)

lemma somma_resto_leggibili:
  "somma_resto w d ps = somma_resto w d (filter (\<lambda>p. leggi_banda w p \<noteq> None) ps)"
  by (induction ps arbitrary: d) (auto split: option.splits)

text \<open>
  Claim C6, evaluated at a window whose first selected tile cannot be opened: the second tile
  \<^verbatim>\<open>b.tif\<close> is readable, yet the function raises instead of returning the sum of the readable
  tiles. When the unreadable tile is not the first one, it is skipped.
\<close>

theorem somma_primo_illeggibile:
  "somma_file_tif_finestra mondo_primo_illeggibile
     [(''a.tif'', 0), (''b.tif'', 3600)] 0 7200 = Inl (ErroreApertura ''a.tif'')
   \<and> somma_file_tif_finestra mondo_primo_illeggibile
     [(''b.tif'', 0), (''a.tif'', 3600), (''c.tif'', 7200)] 0 10800
       = Inr (Some (una_riga [2, 4], (0, 10800), [''b.tif'', ''a.tif'', ''c.tif'']))"
  by (simp add: somma_file_tif_finestra_def mondo_primo_illeggibile_def somma_raster_simps
        basename_def)

section \<open>Properties of the statistics evaluator\<close>

lemma fst_voce_statistica:
  "fst ` set (voce_statistica c nome v) = (if config_get c nome then {nome} else {})"
  by (simp add: voce_statistica_def)

lemma filtra_insert: "{k \<in> insert a A. P k} = (if P a then {a} else {}) \<union> {k \<in> A. P k}"
  by auto

lemma filtra_vuoto: "{k \<in> {}. P k} = {}"
  by simp

lemma calcola_statistiche_filtrato:
  "calcola_statistiche_su_array_ritagliato (Some a) c
     = calcola_statistiche_su_array_ritagliato (Some (filter (\<lambda>x. 0 \<le> x) a)) c"
  by (simp add: list_ex_iff)

lemma calcola_statistiche_chiavi:
  assumes "calcola_statistiche_su_array_ritagliato (Some a) c = Some r"
  shows "fst ` set r = {k \<in> set nomi_statistiche. config_get c k}"
proof -
  from assms have "r =
      voce_statistica c ''media'' (np_mean (filter (\<lambda>x. 0 \<le> x) a))
      @ voce_statistica c ''mediana'' (np_median (filter (\<lambda>x. 0 \<le> x) a))
      @ voce_statistica c ''75_perc'' (np_percentile (filter (\<lambda>x. 0 \<le> x) a) 75)
      @ voce_statistica c ''95_perc'' (np_percentile (filter (\<lambda>x. 0 \<le> x) a) 95)
      @ voce_statistica c ''99_perc'' (np_percentile (filter (\<lambda>x. 0 \<le> x) a) 99)
      @ voce_statistica c ''max'' (np_max (filter (\<lambda>x. 0 \<le> x) a))
      @ voce_statistica c ''min'' (np_min (filter (\<lambda>x. 0 \<le> x) a))
      @ voce_statistica c ''std'' (np_std (filter (\<lambda>x. 0 \<le> x) a))"
    by (simp add: Let_def split: if_splits)
  then have "fst ` set r =
      (if config_get c ''media'' then {''media''} else {})
      \<union> (if config_get c ''mediana'' then {''mediana''} else {})
      \<union> (if config_get c ''75_perc'' then {''75_perc''} else {})
      \<union> (if config_get c ''95_perc'' then {''95_perc''} else {})
      \<union> (if config_get c ''99_perc'' then {''99_perc''} else {})
      \<union> (if config_get c ''max'' then {''max''} else {})
      \<union> (if config_get c ''min'' then {''min''} else {})
      \<union> (if config_get c ''std'' then {''std''} else {})"
    by (simp only: set_append image_Un fst_voce_statistica Un_assoc)
  also have "\<dots> = {k \<in> set nomi_statistiche. config_get c k}"
    unfolding nomi_statistiche_def
    by (simp only: list.set filtra_insert filtra_vuoto Un_assoc Un_empty_right)
  finally show ?thesis .
qed

text \<open>
  Claim C5. The statistics depend only on the pixels with value \<open>\<ge> 0\<close>; an array without any
  pixel \<open>\<ge> 0\<close> gives \<open>None\<close> (not a dictionary of zeros); and when a dictionary is returned its
  keys are exactly the statistics switched on in the configuration, so that a statistic that
  is not switched on is absent.
\<close>

theorem statistiche_solo_pixel_validi:
  "(\<not> (\<exists>x \<in> set a. 0 \<le> x) \<longrightarrow> calcola_statistiche_su_array_ritagliato (Some a) c = None)
   \<and> calcola_statistiche_su_array_ritagliato (Some a) c
       = calcola_statistiche_su_array_ritagliato (Some (filter (\<lambda>x. 0 \<le> x) a)) c
   \<and> (\<forall>r. calcola_statistiche_su_array_ritagliato (Some a) c = Some r \<longrightarrow>
         (\<exists>x \<in> set a. 0 \<le> x) \<and> fst ` set r = {k \<in> set nomi_statistiche. config_get c k})"
proof (intro conjI allI impI)
  assume "\<not> (\<exists>x \<in> set a. 0 \<le> x)"
  then show "calcola_statistiche_su_array_ritagliato (Some a) c = None"
    by (simp add: list_ex_iff)
next
  show "calcola_statistiche_su_array_ritagliato (Some a) c
       = calcola_statistiche_su_array_ritagliato (Some (filter (\<lambda>x. 0 \<le> x) a)) c"
    by (rule calcola_statistiche_filtrato)
next
  fix r assume "calcola_statistiche_su_array_ritagliato (Some a) c = Some r"
  then show "\<exists>x \<in> set a. 0 \<le> x"
    by (simp add: list_ex_iff split: if_splits)
next
  fix r assume "calcola_statistiche_su_array_ritagliato (Some a) c = Some r"
  then show "fst ` set r = {k \<in> set nomi_statistiche. config_get c k}"
    by (rule calcola_statistiche_chiavi)
qed

theorem statistiche_solo_pixel_validi_witness:
  "\<not> (\<exists>x \<in> set [- 9999, - 1 :: real]. 0 \<le> x)
   \<and> calcola_statistiche_su_array_ritagliato (Some [- 9999, - 1]) [''media'' \<mapsto> True] = None
   \<and> calcola_statistiche_su_array_ritagliato (Some [- 9999, 2, 4]) [''media'' \<mapsto> True]
       = Some [(''media'', 3)]
   \<and> fst ` set [(''media'', 3 :: real)]
       = {k \<in> set nomi_statistiche. config_get [''media'' \<mapsto> True] k}"
proof -
  have h1: "\<not> (\<exists>x \<in> set [- 9999, - 1 :: real]. 0 \<le> x)"
    by simp
  have h2: "calcola_statistiche_su_array_ritagliato (Some [- 9999, 2, 4]) [''media'' \<mapsto> True]
       = Some [(''media'', 3)]"
    by (simp add: voce_statistica_def config_get_def np_mean_def)
  from statistiche_solo_pixel_validi [of "[- 9999, - 1]" "[''media'' \<mapsto> True]"] h1
  have r1: "calcola_statistiche_su_array_ritagliato (Some [- 9999, - 1]) [''media'' \<mapsto> True]
       = None"
    by blast
  from statistiche_solo_pixel_validi [of "[- 9999, 2, 4]" "[''media'' \<mapsto> True]"] h2
  have r2: "fst ` set [(''media'', 3 :: real)]
       = {k \<in> set nomi_statistiche. config_get [''media'' \<mapsto> True] k}"
    by blast
  from h1 h2 r1 r2 show ?thesis
    by blast
qed

section \<open>Properties of the sliding-window search\<close>

lemma conta_finestre_attese_eq:
  "conta_finestre_attese d m c n = n + nat ((m - c - d) div ORA + 1)"
proof (induction d m c n rule: conta_finestre_attese.induct)
  case (1 d m c n)
  show ?case
  proof (cases "c + d \<le> m")
    case True
    have e: "(m - c - d) div ORA = (m - (c + ORA) - d) div ORA + 1"
      by (simp add: ORA_def)
    have "0 \<le> (m - c - d) div ORA"
      using True by (simp add: ORA_def)
    with e have p: "0 \<le> (m - (c + ORA) - d) div ORA + 1"
      by simp
    from True 1 have "conta_finestre_attese d m c n
        = (n + 1) + nat ((m - (c + ORA) - d) div ORA + 1)"
      by (simp add: conta_finestre_attese.simps [of d m c n])
    also have "\<dots> = n + nat ((m - c - d) div ORA + 1)"
      using p e by simp
    finally show ?thesis .
  next
    case False
    then have "(m - c - d) div ORA < 0"
      by (simp add: ORA_def)
    with False show ?thesis
      by (simp add: conta_finestre_attese.simps [of d m c n])
  qed
qed



lemma valuta_finestra_stats_non_vuote:
  "valuta_finestra w ts cfg a b = Inr (Some (st, fi)) \<Longrightarrow> st \<noteq> []"
  by (auto simp: valuta_finestra_def split: sum.splits option.splits if_splits prod.splits)

lemma passo_finestre:
  assumes "c + d \<le> m"
  shows "nat ((m - c - d) div ORA + 1) = Suc (nat ((m - (c + ORA) - d) div ORA + 1))"
proof -
  have e: "(m - c - d) div ORA = (m - (c + ORA) - d) div ORA + 1"
    by (simp add: ORA_def)
  have "0 \<le> (m - c - d) div ORA"
    using assms by (simp add: ORA_def)
  with e show ?thesis by simp
qed

lemma finestre_candidate_passo:
  "map (\<lambda>k. (ts, c + int k * ORA, c + int k * ORA + d)) [0..<Suc n]
     = (ts, c, c + d) # map (\<lambda>k. (ts, (c + ORA) + int k * ORA, (c + ORA) + int k * ORA + d)) [0..<n]"
  by (simp add: map_upt_Suc algebra_simps del: upt_Suc)

lemma ciclo_finestre_chiamate:
  "snd (ciclo_finestre w ts cfg d m c (ris, lg, ch)) = Inr r \<Longrightarrow>
   fst (ciclo_finestre w ts cfg d m c (ris, lg, ch))
     = ch @ map (\<lambda>k. (ts, c + int k * ORA, c + int k * ORA + d))
              [0..<nat ((m - c - d) div ORA + 1)]"
proof (induction w ts cfg d m c "(ris, lg, ch)" arbitrary: ris lg ch rule: ciclo_finestre.induct)
  case (1 w ts cfg d m c ris lg ch)
  show ?case
  proof (cases "c + d \<le> m")
    case False
    then have "(m - c - d) div ORA < 0" by (simp add: ORA_def)
    with False show ?thesis by (simp add: ciclo_finestre.simps [of w ts cfg d m c ris lg ch])
  next
    case True
    note n = passo_finestre [OF True]
    show ?thesis
    proof (cases "valuta_finestra w ts cfg c (c + d)")
      case (Inl e)
      with True "1.prems" show ?thesis
        by (simp add: ciclo_finestre.simps [of w ts cfg d m c ris lg ch])
    next
      case (Inr v)
      show ?thesis
      proof (cases v)
        case None
        from True Inr None "1.prems"
        have "snd (ciclo_finestre w ts cfg d m (c + ORA) (ris, lg, ch @ [(ts, c, c + d)])) = Inr r"
          by (simp add: ciclo_finestre.simps [of w ts cfg d m c ris lg ch])
        from "1.hyps"(1) [OF True Inr None this] True Inr None
        show ?thesis
          by (simp add: n finestre_candidate_passo ciclo_finestre.simps [of w ts cfg d m c ris lg ch]
                del: upt_Suc)
      next
        case (Some y)
        obtain st fi where y: "y = (st, fi)" by (cases y)
        from True Inr Some y "1.prems"
        have "snd (ciclo_finestre w ts cfg d m (c + ORA)
                (ris @ [(c, st)], lg @ [(c, c + d, st, fi)], ch @ [(ts, c, c + d)])) = Inr r"
          by (simp add: ciclo_finestre.simps [of w ts cfg d m c ris lg ch])
        from "1.hyps"(2) [OF True Inr Some y [symmetric] this] True Inr Some y
        show ?thesis
          by (simp add: n finestre_candidate_passo ciclo_finestre.simps [of w ts cfg d m c ris lg ch]
                del: upt_Suc)
      qed
    qed
  qed
qed



lemma finestre_mobili_rolling:
  assumes "ts \<noteq> []" "carica_shp w" "durata_ore \<noteq> 24"
  shows "finestre_mobili_con_somma_e_ritaglio w ts durata_ore dc cfg =
     (case ciclo_finestre w ts cfg (timedelta_hours durata_ore)
             (py_max (map snd ts) + timedelta_hours 1) (py_min (map snd ts)) ([], [], []) of
        (chiamate, Inl e) \<Rightarrow> (chiamate, Inl e)
      | (chiamate, Inr (risultati, lista_finestre_log)) \<Rightarrow>
          (if risultati = [] then (chiamate, Inr (None, lista_finestre_log))
           else (chiamate,
                 Inr (Some (snd (max_con_chiave (\<lambda>x. media_di (snd x))
                                    (hd risultati) (tl risultati))),
                      lista_finestre_log))))"
  using assms by (simp add: finestre_mobili_con_somma_e_ritaglio_def Let_def)


















lemma py_min_Min: "xs \<noteq> [] \<Longrightarrow> py_min xs = Min (set xs)"
proof (cases xs)
  case Nil
  assume "xs \<noteq> []"
  with Nil show ?thesis by simp
next
  case (Cons a list)
  show ?thesis
    unfolding Cons py_min_def by (simp only: Min.set_eq_fold list.sel)
qed

lemma py_max_Max: "xs \<noteq> [] \<Longrightarrow> py_max xs = Max (set xs)"
proof (cases xs)
  case Nil
  assume "xs \<noteq> []"
  with Nil show ?thesis by simp
next
  case (Cons a list)
  show ?thesis
    unfolding Cons py_max_def by (simp only: Max.set_eq_fold list.sel)
qed

lemma finestre_attese_eq:
  "finestre_attese ts durata_ore =
     nat ((py_max (map snd ts) + ORA - py_min (map snd ts) - durata_ore * ORA) div ORA + 1)"
  by (simp add: finestre_attese_def conta_finestre_attese_eq timedelta_hours_def)

lemma finestre_mobili_rolling_chiamate:
  assumes "ts \<noteq> []" "carica_shp w" "durata_ore \<noteq> 24"
    and "snd (finestre_mobili_con_somma_e_ritaglio w ts durata_ore dc cfg) = Inr r"
  shows "fst (finestre_mobili_con_somma_e_ritaglio w ts durata_ore dc cfg)
     = map (\<lambda>k. (ts, py_min (map snd ts) + int k * ORA,
                   py_min (map snd ts) + int k * ORA + durata_ore * ORA))
         [0..<finestre_attese ts durata_ore]"
proof -
  note eq = finestre_mobili_rolling [OF assms(1,2,3), of dc cfg]
  obtain ch es where c: "ciclo_finestre w ts cfg (timedelta_hours durata_ore)
             (py_max (map snd ts) + timedelta_hours 1) (py_min (map snd ts)) ([], [], [])
             = (ch, es)"
    by (cases "ciclo_finestre w ts cfg (timedelta_hours durata_ore)
             (py_max (map snd ts) + timedelta_hours 1) (py_min (map snd ts)) ([], [], [])")
  from assms(4) eq c obtain rl where es: "es = Inr rl"
    by (cases es) auto
  from eq c es have f: "fst (finestre_mobili_con_somma_e_ritaglio w ts durata_ore dc cfg) = ch"
    by (auto split: prod.splits if_splits)
  from c es have "snd (ciclo_finestre w ts cfg (timedelta_hours durata_ore)
             (py_max (map snd ts) + timedelta_hours 1) (py_min (map snd ts)) ([], [], []))
             = Inr rl" by simp
  from ciclo_finestre_chiamate [OF this] c
  have "ch = map (\<lambda>k. (ts, py_min (map snd ts) + int k * ORA,
                   py_min (map snd ts) + int k * ORA + timedelta_hours durata_ore))
         [0..<nat ((py_max (map snd ts) + timedelta_hours 1 - py_min (map snd ts)
                     - timedelta_hours durata_ore) div ORA + 1)]"
    by simp
  with f show ?thesis
    by (simp add: finestre_attese_eq timedelta_hours_def)
qed


lemmas valuta_simps =
  finestre_mobili_con_somma_e_ritaglio_def Let_def mondo_esempio_def tre_tile_def
  py_min_def py_max_def timedelta_hours_def ORA_def GIORNO_def date_of_def mezzanotte_def
  ciclo_finestre.simps valuta_finestra_def somma_file_tif_finestra_def somma_raster_simps
  basename_def voce_statistica_def config_get_def np_mean_def

lemma esempio_rolling:
  "finestre_mobili_con_somma_e_ritaglio mondo_esempio tre_tile 1 0 [''media'' \<mapsto> True]
     = ([(tre_tile, 0, 3600), (tre_tile, 3600, 7200), (tre_tile, 7200, 10800)],
        Inr (Some [(''media'', 3)], log_esempio))"
  by (simp add: valuta_simps log_esempio_def media_di_def)

lemma esempio_corto:
  "finestre_mobili_con_somma_e_ritaglio mondo_esempio [(''a.tif'', 0)] 6 0 [''media'' \<mapsto> True]
     = ([], Inr (None, []))"
  by (simp add: valuta_simps)

lemma esempio_24:
  "finestre_mobili_con_somma_e_ritaglio mondo_esempio
      [(''a.tif'', 0), (''b.tif'', 3600), (''c.tif'', 90000)] 24 0 [''media'' \<mapsto> True]
     = ([([(''a.tif'', 0), (''b.tif'', 3600)], 0, 86400)],
        Inr (Some [(''media'', 4)], [(0, 86400, [(''media'', 4)], [''a.tif'', ''b.tif''])]))"
  by (simp add: valuta_simps)

lemma esempio_24_altro_giorno:
  "finestre_mobili_con_somma_e_ritaglio mondo_esempio
      [(''c.tif'', 90000)] 24 0 [''media'' \<mapsto> True]
     = ([], Inr (None, []))"
  by (simp add: valuta_simps)

text \<open>
  Claim C3, amended. For a rolling duration (not 24), a non-empty tile list and a polygon
  that loads, when no summation raises: the span runs from the least timestamp to the
  greatest timestamp plus one hour; the windows evaluated are those that start at the least
  timestamp plus \<open>k\<close> hours for \<open>k = 0, 1, \<dots>\<close> below \<^verbatim>\<open>finestre_attese\<close>, each over the whole
  tile list; every evaluated window ends within the span; and the number of windows is
  \<open>\<lfloor>span - duration\<rfloor> + 1\<close> when the duration is at most the span and \<open>0\<close> when the
  duration is longer than the span.
\<close>

theorem finestre_rolling_valutate:
  assumes "ts \<noteq> []" and "durata_ore \<noteq> 24" and "carica_shp w"
    and "snd (finestre_mobili_con_somma_e_ritaglio w ts durata_ore dc cfg) = Inr r"
  shows "py_min (map snd ts) = Min (snd ` set ts) \<and> py_max (map snd ts) = Max (snd ` set ts)
     \<and> fst (finestre_mobili_con_somma_e_ritaglio w ts durata_ore dc cfg)
         = map (\<lambda>k. (ts, py_min (map snd ts) + int k * ORA,
                       py_min (map snd ts) + int k * ORA + durata_ore * ORA))
             [0..<finestre_attese ts durata_ore]
     \<and> (\<forall>(l, a, b) \<in> set (fst (finestre_mobili_con_somma_e_ritaglio w ts durata_ore dc cfg)).
           b = a + durata_ore * ORA \<and> b \<le> py_max (map snd ts) + ORA)
     \<and> (durata_ore * ORA \<le> py_max (map snd ts) + ORA - py_min (map snd ts) \<longrightarrow>
           int (finestre_attese ts durata_ore)
             = (py_max (map snd ts) + ORA - py_min (map snd ts) - durata_ore * ORA) div ORA + 1)
     \<and> (py_max (map snd ts) + ORA - py_min (map snd ts) < durata_ore * ORA \<longrightarrow>
           finestre_attese ts durata_ore = 0)"
proof -
  let ?x = "py_max (map snd ts) + ORA - py_min (map snd ts) - durata_ore * ORA"
  have n: "finestre_attese ts durata_ore = nat (?x div ORA + 1)"
    by (rule finestre_attese_eq)
  have a: "py_min (map snd ts) = Min (snd ` set ts)" "py_max (map snd ts) = Max (snd ` set ts)"
    using assms(1) by (simp_all add: py_min_Min py_max_Max)
  note b = finestre_mobili_rolling_chiamate [OF assms(1,3,2,4)]
  have c: "\<forall>(l, a, b) \<in> set (fst (finestre_mobili_con_somma_e_ritaglio w ts durata_ore dc cfg)).
           b = a + durata_ore * ORA \<and> b \<le> py_max (map snd ts) + ORA"
  proof -
    have k: "\<And>k. k < nat (?x div ORA + 1) \<Longrightarrow> int k * ORA \<le> ?x"
      unfolding ORA_def by linarith
    show ?thesis
      unfolding b n by (fastforce dest: k)
  qed
  have d: "durata_ore * ORA \<le> py_max (map snd ts) + ORA - py_min (map snd ts) \<longrightarrow>
           int (finestre_attese ts durata_ore) = ?x div ORA + 1"
    unfolding n ORA_def by auto
  have e: "py_max (map snd ts) + ORA - py_min (map snd ts) < durata_ore * ORA \<longrightarrow>
           finestre_attese ts durata_ore = 0"
    unfolding n ORA_def by auto
  from a b c d e show ?thesis by blast
qed

text \<open>
  Claim C4, amended. For the duration 24 at most one window is evaluated: when the tile list
  is not empty, the polygon loads and at least one tile falls on the calendar day of
  \<open>dc\<close>, exactly one, the calendar day from its midnight to the next midnight, summed over
  the tiles of that calendar day only, all of which are selected; otherwise none. A tile
  lies in that window exactly when its date is the date of \<open>dc\<close>.
\<close>

theorem finestra_24h_unica:
  "fst (finestre_mobili_con_somma_e_ritaglio w ts 24 dc cfg)
     = (if ts \<noteq> [] \<and> carica_shp w \<and> filter (\<lambda>(p, t). date_of t = date_of dc) ts \<noteq> []
        then [(filter (\<lambda>(p, t). date_of t = date_of dc) ts, mezzanotte dc, mezzanotte dc + GIORNO)]
        else [])
   \<and> seleziona_finestra (filter (\<lambda>(p, t). date_of t = date_of dc) ts)
         (mezzanotte dc) (mezzanotte dc + GIORNO) ([], [])
       = (map fst (filter (\<lambda>(p, t). date_of t = date_of dc) ts),
          map snd (filter (\<lambda>(p, t). date_of t = date_of dc) ts))
   \<and> (\<forall>(p, t) \<in> set ts.
         (mezzanotte dc \<le> t \<and> t < mezzanotte dc + GIORNO) = (date_of t = date_of dc))"
proof -
  have g: "\<And>t. (mezzanotte dc \<le> t \<and> t < mezzanotte dc + GIORNO) = (date_of t = date_of dc)"
    unfolding mezzanotte_def date_of_def GIORNO_def by linarith
  have 1: "fst (finestre_mobili_con_somma_e_ritaglio w ts 24 dc cfg)
     = (if ts \<noteq> [] \<and> carica_shp w \<and> filter (\<lambda>(p, t). date_of t = date_of dc) ts \<noteq> []
        then [(filter (\<lambda>(p, t). date_of t = date_of dc) ts, mezzanotte dc, mezzanotte dc + GIORNO)]
        else [])"
    by (simp add: finestre_mobili_con_somma_e_ritaglio_def Let_def)
  have "filter (\<lambda>(p, t). mezzanotte dc \<le> t \<and> t < mezzanotte dc + GIORNO)
          (filter (\<lambda>(p, t). date_of t = date_of dc) ts)
        = filter (\<lambda>(p, t). date_of t = date_of dc) ts"
    by (rule filter_True) (auto simp: g)
  then have 2: "seleziona_finestra (filter (\<lambda>(p, t). date_of t = date_of dc) ts)
         (mezzanotte dc) (mezzanotte dc + GIORNO) ([], [])
       = (map fst (filter (\<lambda>(p, t). date_of t = date_of dc) ts),
          map snd (filter (\<lambda>(p, t). date_of t = date_of dc) ts))"
    by (simp only: seleziona_finestra_filter)
  from 1 2 g show ?thesis by auto
qed





theorem finestre_rolling_valutate_witness:
  "tre_tile \<noteq> [] \<and> (1 :: int) \<noteq> 24 \<and> carica_shp mondo_esempio
   \<and> snd (finestre_mobili_con_somma_e_ritaglio mondo_esempio tre_tile 1 0 [''media'' \<mapsto> True])
       = Inr (Some [(''media'', 3)], log_esempio)
   \<and> fst (finestre_mobili_con_somma_e_ritaglio mondo_esempio tre_tile 1 0 [''media'' \<mapsto> True])
       = map (\<lambda>k. (tre_tile, py_min (map snd tre_tile) + int k * ORA,
                     py_min (map snd tre_tile) + int k * ORA + 1 * ORA))
           [0..<finestre_attese tre_tile 1]
   \<and> 1 * ORA \<le> py_max (map snd tre_tile) + ORA - py_min (map snd tre_tile)
   \<and> int (finestre_attese tre_tile 1)
       = (py_max (map snd tre_tile) + ORA - py_min (map snd tre_tile) - 1 * ORA) div ORA + 1
   \<and> finestre_attese tre_tile 1 = 3"
proof -
  have h1: "tre_tile \<noteq> []"
    by (simp add: tre_tile_def)
  have h2: "(1 :: int) \<noteq> 24"
    by simp
  have h3: "carica_shp mondo_esempio"
    by (simp add: mondo_esempio_def)
  have h4: "snd (finestre_mobili_con_somma_e_ritaglio mondo_esempio tre_tile 1 0
                  [''media'' \<mapsto> True]) = Inr (Some [(''media'', 3)], log_esempio)"
    by (simp add: esempio_rolling)
  have h5: "1 * ORA \<le> py_max (map snd tre_tile) + ORA - py_min (map snd tre_tile)"
    by (simp add: tre_tile_def py_max_def py_min_def ORA_def)
  have h6: "finestre_attese tre_tile 1 = 3"
    by (simp add: finestre_attese_eq tre_tile_def py_max_def py_min_def ORA_def)
  from finestre_rolling_valutate [OF h1 h2 h3 h4] h1 h2 h3 h4 h5 h6 show ?thesis
    by blast
qed

text \<open>
  Claim C3 as stated fails for a span shorter than the duration: one tile at 00:00 and a
  duration of six hours give a span of one hour, no window is evaluated, and
  \<open>\<lfloor>1 - 6\<rfloor> + 1 = - 4\<close>.
\<close>

theorem finestre_rolling_controesempio:
  "fst (finestre_mobili_con_somma_e_ritaglio mondo_esempio [(''a.tif'', 0)] 6 0
          [''media'' \<mapsto> True]) = []
   \<and> finestre_attese [(''a.tif'', 0)] 6 = 0
   \<and> (py_max (map snd [(''a.tif'', 0 :: int)]) + ORA - py_min (map snd [(''a.tif'', 0 :: int)])
        - 6 * ORA) div ORA + 1 = - 4
   \<and> int (length (fst (finestre_mobili_con_somma_e_ritaglio mondo_esempio [(''a.tif'', 0)] 6 0
          [''media'' \<mapsto> True])))
      \<noteq> (py_max (map snd [(''a.tif'', 0 :: int)]) + ORA - py_min (map snd [(''a.tif'', 0 :: int)])
        - 6 * ORA) div ORA + 1"
  by (simp add: esempio_corto finestre_attese_eq py_max_def py_min_def ORA_def)

theorem finestra_24h_unica_witness:
  "fst (finestre_mobili_con_somma_e_ritaglio mondo_esempio
          [(''a.tif'', 0), (''b.tif'', 3600), (''c.tif'', 90000)] 24 0 [''media'' \<mapsto> True])
     = [([(''a.tif'', 0), (''b.tif'', 3600)], 0, 86400)]
   \<and> seleziona_finestra [(''a.tif'', 0), (''b.tif'', 3600)] 0 86400 ([], [])
       = ([''a.tif'', ''b.tif''], [0, 3600])
   \<and> (mezzanotte 0 \<le> 3600 \<and> 3600 < mezzanotte 0 + GIORNO) = (date_of 3600 = date_of 0)
   \<and> (mezzanotte 0 \<le> 90000 \<and> 90000 < mezzanotte 0 + GIORNO) = (date_of 90000 = date_of 0)
   \<and> date_of 3600 = date_of 0 \<and> date_of 90000 \<noteq> date_of 0"
proof -
  have e: "fst (finestre_mobili_con_somma_e_ritaglio mondo_esempio
          [(''a.tif'', 0), (''b.tif'', 3600), (''c.tif'', 90000)] 24 0 [''media'' \<mapsto> True])
     = [([(''a.tif'', 0), (''b.tif'', 3600)], 0, 86400)]"
    by (simp add: esempio_24)
  have d: "date_of 3600 = date_of 0 \<and> date_of 90000 \<noteq> date_of 0"
    by (simp add: date_of_def GIORNO_def)
  have s: "seleziona_finestra [(''a.tif'', 0), (''b.tif'', 3600)] 0 86400 ([], [])
       = ([''a.tif'', ''b.tif''], [0, 3600])"
    by simp
  from finestra_24h_unica [of mondo_esempio
          "[(''a.tif'', 0), (''b.tif'', 3600), (''c.tif'', 90000)]" 0 "[''media'' \<mapsto> True]"]
  have b: "\<forall>(p, t) \<in> set [(''a.tif'', 0), (''b.tif'', 3600), (''c.tif'', 90000 :: int)].
         (mezzanotte 0 \<le> t \<and> t < mezzanotte 0 + GIORNO) = (date_of t = date_of 0)"
    by blast
  have m1: "(''b.tif'', 3600) \<in> set [(''a.tif'', 0), (''b.tif'', 3600), (''c.tif'', 90000 :: int)]"
    and m2: "(''c.tif'', 90000) \<in> set [(''a.tif'', 0), (''b.tif'', 3600), (''c.tif'', 90000 :: int)]"
    by simp_all
  from bspec [OF b m1]
  have b1: "(mezzanotte 0 \<le> 3600 \<and> 3600 < mezzanotte 0 + GIORNO) = (date_of 3600 = date_of 0)"
    by (simp only: case_prod_conv)
  from bspec [OF b m2]
  have b2: "(mezzanotte 0 \<le> 90000 \<and> 90000 < mezzanotte 0 + GIORNO)
              = (date_of 90000 = date_of 0)"
    by (simp only: case_prod_conv)
  from e d s b1 b2 show ?thesis
    by blast
qed

text \<open>
  Claim C4 as stated fails when no tile of the list falls on the calendar day: no window is
  evaluated.
\<close>

theorem finestra_24h_controesempio:
  "fst (finestre_mobili_con_somma_e_ritaglio mondo_esempio [(''c.tif'', 90000)] 24 0
          [''media'' \<mapsto> True]) = []
   \<and> length (fst (finestre_mobili_con_somma_e_ritaglio mondo_esempio [(''c.tif'', 90000)] 24 0
          [''media'' \<mapsto> True])) \<noteq> 1"
  by (simp add: esempio_24_altro_giorno)

section \<open>Properties of the archive integrity verifier\<close>

lemma file_mancanti_aggiungi [simp]:
  "file_mancanti (aggiungi_file_corrotto r d t p e) = file_mancanti r"
  "file_mancanti (aggiungi_file_valido r d t p) = file_mancanti r"
  "file_mancanti (aggiungi_file_mancante r d t) = file_mancanti r @ [(date_of d, t)]"
  by (simp_all add: aggiungi_file_corrotto_def aggiungi_file_valido_def
        aggiungi_file_mancante_def)

lemma file_corrotti_aggiungi [simp]:
  "file_corrotti (aggiungi_file_corrotto r d t p e) = file_corrotti r @ [(date_of d, t, p, e)]"
  "file_corrotti (aggiungi_file_valido r d t p) = file_corrotti r"
  "file_corrotti (aggiungi_file_mancante r d t) = file_corrotti r"
  by (simp_all add: aggiungi_file_corrotto_def aggiungi_file_valido_def
        aggiungi_file_mancante_def)

lemma file_validi_aggiungi [simp]:
  "file_validi (aggiungi_file_corrotto r d t p e) = file_validi r"
  "file_validi (aggiungi_file_valido r d t p) = file_validi r @ [(date_of d, t, p)]"
  "file_validi (aggiungi_file_mancante r d t) = file_validi r"
  by (simp_all add: aggiungi_file_corrotto_def aggiungi_file_valido_def
        aggiungi_file_mancante_def)

text \<open>
  The hours the second loop records missing are the hours whose timestamp is not a key of
  \<^verbatim>\<open>file_trovati\<close>.
\<close>

lemma segna_mancanti_fold:
  "file_mancanti (fold (\<lambda>ora r. if ft (ora_attesa d ora) = None
                    then aggiungi_file_mancante r d (ora_attesa d ora) else r) ore r0)
     = file_mancanti r0
        @ map (\<lambda>ora. (date_of d, ora_attesa d ora)) (filter (\<lambda>ora. ft (ora_attesa d ora) = None) ore)"
  by (induction ore arbitrary: r0) simp_all

lemma file_mancanti_segna:
  "file_mancanti (segna_mancanti d ft r0)
     = file_mancanti r0
        @ map (\<lambda>ora. (date_of d, ora_attesa d ora))
            (filter (\<lambda>ora. ft (ora_attesa d ora) = None) [0..<24])"
  unfolding segna_mancanti_def by (rule segna_mancanti_fold)

lemma segna_mancanti_altri_fold:
  "file_corrotti (fold (\<lambda>ora r. if ft (ora_attesa d ora) = None
                    then aggiungi_file_mancante r d (ora_attesa d ora) else r) ore r0)
     = file_corrotti r0
   \<and> file_validi (fold (\<lambda>ora r. if ft (ora_attesa d ora) = None
                    then aggiungi_file_mancante r d (ora_attesa d ora) else r) ore r0)
     = file_validi r0"
  by (induction ore arbitrary: r0) simp_all

lemma segna_mancanti_altri:
  "file_corrotti (segna_mancanti d ft r0) = file_corrotti r0"
  "file_validi (segna_mancanti d ft r0) = file_validi r0"
  unfolding segna_mancanti_def by (simp_all add: segna_mancanti_altri_fold)

text \<open>
  A timestamp enters \<^verbatim>\<open>file_trovati\<close> only with a tile that was read: scanning a tile that is
  corrupt leaves the dictionary as it was.
\<close>

lemma scansiona_file_corrotto:
  "stato v \<noteq> Leggibile \<Longrightarrow> snd (scansiona_file d v (r, ft)) = ft"
  by (cases "stato v") (simp_all add: scansiona_file_def split: option.splits)

text \<open>
  What the verifier records missing for a day whose directory exists: the hours for which
  the directory holds no tile that was read, whether or not it holds a corrupt one.
\<close>

lemma scansiona_file_trovati:
  "(snd (scansiona_file d v (r, ft)) t = None) = (ft t = None \<and> \<not> tile_letto v t)"
  by (cases "stato v")
     (auto simp: scansiona_file_def tile_letto_def split: option.splits)

lemma scansiona_file_mancanti:
  "file_mancanti (fst (scansiona_file d v (r, ft))) = file_mancanti r"
  by (cases "stato v") (auto simp: scansiona_file_def split: option.splits)

lemma fold_scansiona:
  "(snd (fold (scansiona_file d) elenco (r, ft)) t = None)
      = (ft t = None \<and> \<not> (\<exists>v \<in> set elenco. tile_letto v t))
   \<and> file_mancanti (fst (fold (scansiona_file d) elenco (r, ft))) = file_mancanti r"
proof (induction elenco arbitrary: r ft)
  case Nil
  show ?case by simp
next
  case (Cons v elenco)
  obtain r' ft' where s: "scansiona_file d v (r, ft) = (r', ft')"
    by (cases "scansiona_file d v (r, ft)")
  from scansiona_file_trovati [of d v r ft t] s
  have a: "(ft' t = None) = (ft t = None \<and> \<not> tile_letto v t)" by simp
  from scansiona_file_mancanti [of d v r ft] s
  have b: "file_mancanti r' = file_mancanti r" by simp
  from Cons.IH [of r' ft'] a b s show ?case by auto
qed

lemma verifica_giorno_mancanti:
  assumes "arch (date_of d) = Some elenco"
  shows "file_mancanti (verifica_giorno arch d r0)
     = file_mancanti r0
       @ map (\<lambda>ora. (date_of d, ora_attesa d ora))
           (filter (\<lambda>ora. \<not> (\<exists>v \<in> set elenco. tile_letto v (ora_attesa d ora))) [0..<24])"
proof -
  let ?r = "r0\<lparr>giorni_analizzati := insert (date_of d) (giorni_analizzati r0)\<rparr>"
  obtain r' ft' where f: "fold (scansiona_file d) elenco (?r, Map.empty) = (r', ft')"
    by (cases "fold (scansiona_file d) elenco (?r, Map.empty)")
  have t: "\<And>t. (ft' t = None) = (\<not> (\<exists>v \<in> set elenco. tile_letto v t))"
    using fold_scansiona [of d elenco ?r Map.empty] f by simp
  have m: "file_mancanti r' = file_mancanti r0"
    using fold_scansiona [of d elenco ?r Map.empty] f by simp
  from assms f have "verifica_giorno arch d r0 = segna_mancanti d ft' r'"
    by (simp add: verifica_giorno_def Let_def)
  then show ?thesis
    by (simp add: file_mancanti_segna t m)
qed

text \<open>
  Claim C7, evaluated on an archive whose day 0 holds one tile, the one of 09:00, that
  cannot be opened: the hour 09:00 is recorded corrupt and is recorded missing as well, and
  the report counts 24 missing hours for the day.
\<close>

theorem verifica_corrotto_anche_mancante:
  "file_corrotti (verifica_integrita_archivio archivio_esempio 0 0)
     = [(0, 32400, ''2023/01/05/radar_20230105090000.tif'',
         ''not recognized as a supported file format'')]
   \<and> (0, 32400) \<in> set (file_mancanti (verifica_integrita_archivio archivio_esempio 0 0))
   \<and> length (file_mancanti (verifica_integrita_archivio archivio_esempio 0 0)) = 24
   \<and> file_validi (verifica_integrita_archivio archivio_esempio 0 0) = []"
  by (simp add: verifica_integrita_archivio_def date_range_def verifica_giorno_def
        archivio_esempio_def report_vuoto_def scansiona_file_def endswith_def minuto_def
        secondo_def file_mancanti_segna segna_mancanti_altri ora_attesa_def mezzanotte_def date_of_def GIORNO_def
        ORA_def aggiungi_file_corrotto_def)

section \<open>Properties of the equivalent-rainfall model\<close>

text \<open>
  Claim C10. For the curve number 100 and every \<open>P5 > 0\<close>, \<open>S\<close> and \<open>M\<close> are both zero, the
  divisor \<open>S + M\<close> is zero and \<^verbatim>\<open>calcola_peq0\<close> gives not-a-number; the guard of the caller lets
  the cell through, so the cell of the table is not-a-number and not zero, while a cell that
  is missing or not positive gives zero.
\<close>

theorem calcola_peq0_cn_100:
  assumes "0 < P5"
  shows "25400 / 100 - 254 = (0 :: real)
     \<and> max (sqrt ((25400 / 100 - 254) * (P5 + ((1 - LAMBDA_PEQ) / 2)\<^sup>2 * (25400 / 100 - 254)))
             - ((1 + LAMBDA_PEQ) / 2) * (25400 / 100 - 254)) 0 = 0
     \<and> calcola_peq0 P5 100 LAMBDA_PEQ = Inr NonNumero
     \<and> peq0_cella 100 (Some P5) = Inr NonNumero
     \<and> peq0_cella 100 (Some P5) \<noteq> Inr (Finito 0)
     \<and> peq0_cella 100 None = Inr (Finito 0)
     \<and> peq0_cella 100 (Some 0) = Inr (Finito 0)"
  using assms by (simp add: calcola_peq0_def peq0_cella_def)

theorem calcola_peq0_cn_100_witness:
  "(0 :: real) < 12
   \<and> calcola_peq0 12 100 LAMBDA_PEQ = Inr NonNumero
   \<and> peq0_cella 100 (Some 12) = Inr NonNumero
   \<and> series_apply (peq0_cella 100) [None, Some 0, Some 12]
       = Inr [Finito 0, Finito 0, NonNumero]"
proof -
  have h: "(0 :: real) < 12"
    by simp
  from calcola_peq0_cn_100 [OF h]
  have c: "calcola_peq0 12 100 LAMBDA_PEQ = Inr NonNumero"
    and p: "peq0_cella 100 (Some 12) = Inr NonNumero"
    and n: "peq0_cella 100 None = Inr (Finito 0)"
    and z: "peq0_cella 100 (Some 0) = Inr (Finito 0)"
    by blast+
  have "series_apply (peq0_cella 100) [None, Some 0, Some 12]
       = Inr [Finito 0, Finito 0, NonNumero]"
    by (simp add: p n z)
  with h c p show ?thesis
    by blast
qed

section \<open>Properties of the antecedent rainfall table\<close>

lemma map_of_sostituisci:
  "map_of (map (\<lambda>(n, c). if n = col then (n, v) else (n, c)) xs) z
     = (if z = col then (if map_of xs col = None then None else Some v) else map_of xs z)"
  by (induction xs) auto

lemma colonna_assegna:
  "colonna (assegna df col v) z = (if z = col then Some v else colonna df z)"
proof (cases "col \<in> set (map fst (colonne df))")
  case True
  then have "map_of (colonne df) col \<noteq> None"
    by (simp add: map_of_eq_None_iff)
  with True show ?thesis
    by (auto simp: colonna_def assegna_def map_of_sostituisci)
next
  case False
  then have "map_of (colonne df) col = None"
    by (simp add: map_of_eq_None_iff)
  with False show ?thesis
    by (simp add: colonna_def assegna_def map_add_def split: option.splits)
qed

lemma Data_assegna: "Data (assegna df col v) = Data df"
  by (simp add: assegna_def)













section \<open>Properties of the merge with the equivalent rainfall\<close>

lemma trova_Some:
  assumes "trova xs d = Some i"
  shows "i < length xs \<and> xs ! i = d"
proof -
  from assms obtain r where "filter (\<lambda>j. xs ! j = d) [0..<length xs] = i # r"
    by (auto simp: trova_def split: list.splits)
  then have "i \<in> set (filter (\<lambda>j. xs ! j = d) [0..<length xs])"
    by simp
  then show ?thesis by simp
qed

lemma trova_None: "(trova xs d = None) = (d \<notin> set xs)"
proof -
  have "(trova xs d = None) = (filter (\<lambda>j. xs ! j = d) [0..<length xs] = [])"
    by (simp add: trova_def split: list.splits)
  also have "\<dots> = (d \<notin> set xs)"
    by (auto simp: filter_empty_conv in_set_conv_nth)
  finally show ?thesis .
qed

lemma filtra_distinct:
  assumes "distinct xs"
  shows "filter (\<lambda>j. xs ! j = d) [0..<length xs]
           = (case trova xs d of None \<Rightarrow> [] | Some j \<Rightarrow> [j])"
proof (cases "filter (\<lambda>j. xs ! j = d) [0..<length xs]")
  case Nil
  then show ?thesis by (simp add: trova_def)
next
  case (Cons j r)
  have "r = []"
  proof (cases r)
    case Nil
    then show ?thesis .
  next
    case (Cons j' r')
    have dist: "distinct (filter (\<lambda>j. xs ! j = d) [0..<length xs])"
      by simp
    from \<open>filter (\<lambda>j. xs ! j = d) [0..<length xs] = j # r\<close> Cons
    have e: "filter (\<lambda>j. xs ! j = d) [0..<length xs] = j # j' # r'" by simp
    then have "j \<in> set (filter (\<lambda>j. xs ! j = d) [0..<length xs])"
      and "j' \<in> set (filter (\<lambda>j. xs ! j = d) [0..<length xs])"
      by simp_all
    then have "j < length xs" "j' < length xs" "xs ! j = xs ! j'"
      by simp_all
    with assms have "j = j'"
      by (simp add: nth_eq_iff_index_eq)
    moreover from dist e have "j \<noteq> j'" by simp
    ultimately show ?thesis by simp
  qed
  with Cons show ?thesis by (simp add: trova_def)
qed


lemma accoppia_distinct:
  assumes "distinct destra"
  shows "accoppia sinistra destra
           = map (\<lambda>i. (i, trova destra (sinistra ! i))) [0..<length sinistra]"
proof -
  have "\<And>i. (let trovati = filter (\<lambda>j. destra ! j = sinistra ! i) [0..<length destra]
             in if trovati = [] then [(i, None)] else map (\<lambda>j. (i, Some j)) trovati)
          = [(i, trova destra (sinistra ! i))]"
    by (simp add: filtra_distinct [OF assms] split: option.splits)
  then show ?thesis
    unfolding accoppia_def by simp
qed

lemma pd_merge_left_distinct:
  assumes "distinct (Data dx)"
  shows "pd_merge_left sx dx suffisso =
     \<lparr>Data = map (\<lambda>i. Data sx ! i) [0..<length (Data sx)],
      colonne =
        map (\<lambda>(n, c). (n, map (\<lambda>i. c ! i) [0..<length (Data sx)])) (colonne sx)
        @ map (\<lambda>(n, c). (if n \<in> set (map fst (colonne sx)) then n @ suffisso else n,
                 map (\<lambda>i. case trova (Data dx) (Data sx ! i) of None \<Rightarrow> None
                           | Some j' \<Rightarrow> c ! j') [0..<length (Data sx)]))
            (colonne dx)\<rparr>"
  by (simp add: pd_merge_left_def accoppia_distinct [OF assms] comp_def)

lemma map_of_rinomina:
  assumes "z \<in> A" and "z @ suffisso \<notin> fst ` set ys"
  shows "map_of (map (\<lambda>(n, c). (if n \<in> A then n @ suffisso else n, g c)) ys) (z @ suffisso)
           = map_option g (map_of ys z)"
  using assms(2)
proof (induction ys)
  case Nil
  show ?case by simp
next
  case (Cons a ys)
  obtain n c where a: "a = (n, c)" by (cases a)
  from Cons.prems have n: "n \<noteq> z @ suffisso" and r: "z @ suffisso \<notin> fst ` set ys"
    by (auto simp: a)
  show ?case
  proof (cases "n \<in> A")
    case True
    with Cons.IH [OF r] show ?thesis by (simp add: a)
  next
    case False
    with assms(1) have "n \<noteq> z" by auto
    with False n Cons.IH [OF r] show ?thesis by (simp add: a)
  qed
qed

lemma colonna_in_columns:
  "(if k \<in> set (columns df) then colonna df k else None) = colonna df k"
proof (cases "colonna df k")
  case None
  then show ?thesis by simp
next
  case (Some c)
  then have "k \<in> fst ` set (colonne df)"
    unfolding colonna_def by (metis map_of_eq_None_iff option.distinct(1))
  then show ?thesis by (simp add: columns_def)
qed

lemma fold_assegna_gen:
  "colonna (fold (\<lambda>col acc. case h col of None \<Rightarrow> acc | Some v \<Rightarrow> assegna acc col v) zs acc0) z
     = (if z \<in> set zs then (case h z of None \<Rightarrow> colonna acc0 z | Some v \<Rightarrow> Some v)
        else colonna acc0 z)"
  by (induction zs arbitrary: acc0) (auto simp: colonna_assegna split: option.splits)

lemma fold_assegna_gen_Data:
  "Data (fold (\<lambda>col acc. case h col of None \<Rightarrow> acc | Some v \<Rightarrow> assegna acc col v) zs acc0)
     = Data acc0"
  by (induction zs arbitrary: acc0) (auto simp: Data_assegna split: option.splits)

lemma ordine_props:
  "length (sort_key (\<lambda>i. xs ! i) [0..<length xs]) = length xs"
  "set (sort_key (\<lambda>i. xs ! i) [0..<length xs]) = {0..<length xs}"
  "distinct (sort_key (\<lambda>i. xs ! i) [0..<length xs])"
  by simp_all

lemma Data_sort_values:
  assumes "distinct (Data df)"
  shows "Data (sort_values_Data df) = sort (Data df)"
proof -
  let ?xs = "Data df"
  let ?ord = "sort_key (\<lambda>i. ?xs ! i) [0..<length ?xs]"
  have d: "Data (sort_values_Data df) = map (nth ?xs) ?ord"
    by (simp add: sort_values_Data_def Let_def)
  have s: "sorted (map (nth ?xs) ?ord)"
    by (rule sorted_sort_key)
  have "inj_on (nth ?xs) (set ?ord)"
    using assms by (simp add: inj_on_nth)
  then have di: "distinct (map (nth ?xs) ?ord)"
    by (simp add: distinct_map)
  have "set (map (nth ?xs) ?ord) = set (map (nth ?xs) [0..<length ?xs])"
    by simp
  then have se: "set (map (nth ?xs) ?ord) = set ?xs"
    by (simp only: map_nth)
  have s2: "sorted (sort ?xs)"
    by simp
  have d2: "distinct (sort ?xs)"
    using assms by simp
  have se2: "set (map (nth ?xs) ?ord) = set (sort ?xs)"
    using se by (simp only: set_sort)
  show ?thesis
    unfolding d by (rule sorted_distinct_set_unique [OF s di s2 d2 se2])
qed

lemma colonna_sort_values:
  "colonna (sort_values_Data df) z
     = map_option (\<lambda>c. map (nth c) (sort_key (\<lambda>i. Data df ! i) [0..<length (Data df)]))
         (colonna df z)"
  by (simp add: sort_values_Data_def Let_def colonna_def map_of_map)

lemma cella_sort_values:
  assumes "distinct (Data df)"
  shows "cella (sort_values_Data df) d z = cella df d z"
proof (cases "d \<in> set (Data df)")
  case False
  then have "trova (Data df) d = None" by (simp add: trova_None)
  moreover from False have "trova (Data (sort_values_Data df)) d = None"
    by (simp add: trova_None Data_sort_values [OF assms])
  ultimately show ?thesis by (simp add: cella_def)
next
  case True
  let ?xs = "Data df"
  let ?ord = "sort_key (\<lambda>i. ?xs ! i) [0..<length ?xs]"
  have dm: "Data (sort_values_Data df) = map (nth ?xs) ?ord"
    by (simp add: sort_values_Data_def Let_def)
  from True obtain i0 where i0: "trova ?xs d = Some i0"
    using trova_None [of ?xs d] by (cases "trova ?xs d") auto
  from True have "d \<in> set (Data (sort_values_Data df))"
    by (simp add: Data_sort_values [OF assms])
  then obtain p where p: "trova (Data (sort_values_Data df)) d = Some p"
    using trova_None [of "Data (sort_values_Data df)" d]
    by (cases "trova (Data (sort_values_Data df)) d") auto
  from trova_Some [OF i0] have i0n: "i0 < length ?xs" and i0d: "?xs ! i0 = d" by simp_all
  from trova_Some [OF p] have pn: "p < length ?ord" and pd: "map (nth ?xs) ?ord ! p = d"
    by (simp_all add: dm)
  from pn have "?ord ! p \<in> set ?ord" by (rule nth_mem)
  then have on: "?ord ! p < length ?xs" by simp
  from pd pn have "?xs ! (?ord ! p) = d" by simp
  with i0d assms on i0n have e: "?ord ! p = i0"
    using nth_eq_iff_index_eq [of ?xs "?ord ! p" i0] by simp
  show ?thesis
  proof (cases "colonna df z")
    case None
    with i0 p show ?thesis by (simp add: cella_def colonna_sort_values)
  next
    case (Some c)
    with i0 p pn e show ?thesis
      by (simp add: cella_def colonna_sort_values)
  qed
qed

lemma somma_statistiche_con_peq0_fold:
  "somma_statistiche_con_peq0 sx dx =
     sort_values_Data
       (fold (\<lambda>col acc. case serie_con_peq0 (pd_merge_left sx dx ''_peq0'') col of
                           None \<Rightarrow> acc | Some v \<Rightarrow> assegna acc col v)
          (zone_columns sx) \<lparr>Data = Data (pd_merge_left sx dx ''_peq0''), colonne = []\<rparr>)"
proof -
  have "(\<lambda>col result.
            case colonna (pd_merge_left sx dx ''_peq0'') col of
              None \<Rightarrow> result
            | Some serie \<Rightarrow>
                (case (if col @ ''_peq0'' \<in> set (columns (pd_merge_left sx dx ''_peq0''))
                       then colonna (pd_merge_left sx dx ''_peq0'') (col @ ''_peq0'') else None) of
                   Some serie_peq0 \<Rightarrow>
                     assegna result col (serie_somma (fillna 0 serie) (fillna 0 serie_peq0))
                 | None \<Rightarrow> assegna result col (fillna 0 serie)))
        = (\<lambda>col acc. case serie_con_peq0 (pd_merge_left sx dx ''_peq0'') col of
                           None \<Rightarrow> acc | Some v \<Rightarrow> assegna acc col v)"
    unfolding colonna_in_columns
    by (intro ext) (simp add: serie_con_peq0_def split: option.splits)
  then show ?thesis
    by (simp add: somma_statistiche_con_peq0_def Let_def)
qed

lemma merged_Data:
  "distinct (Data dx) \<Longrightarrow> Data (pd_merge_left sx dx suffisso) = Data sx"
  by (simp add: pd_merge_left_distinct map_nth)

lemma merged_colonna_sx:
  assumes "distinct (Data dx)" "colonna sx z = Some c"
  shows "colonna (pd_merge_left sx dx suffisso) z = Some (map (\<lambda>i. c ! i) [0..<length (Data sx)])"
  using assms(2)
  by (simp add: pd_merge_left_distinct [OF assms(1)] colonna_def map_add_def map_of_map)

lemma merged_colonna_dx:
  assumes "distinct (Data dx)" "colonna sx z = Some c"
    and "z @ suffisso \<notin> set (columns sx)" "z @ suffisso \<notin> set (columns dx)"
  shows "colonna (pd_merge_left sx dx suffisso) (z @ suffisso)
     = map_option (\<lambda>c. map (\<lambda>i. case trova (Data dx) (Data sx ! i) of None \<Rightarrow> None
                                  | Some j' \<Rightarrow> c ! j') [0..<length (Data sx)])
         (colonna dx z)"
proof -
  from assms(2) have z: "z \<in> fst ` set (colonne sx)"
    unfolding colonna_def by (metis map_of_eq_None_iff option.distinct(1))
  from assms(3) have l: "map_of (colonne sx) (z @ suffisso) = None"
    by (simp add: columns_def map_of_eq_None_iff)
  from assms(4) have r: "z @ suffisso \<notin> fst ` set (colonne dx)"
    by (simp add: columns_def)
  have "map_of (map (\<lambda>(n, c). (n, map (\<lambda>i. c ! i) [0..<length (Data sx)])) (colonne sx))
          (z @ suffisso) = None"
    using l by (simp add: map_of_map)
  then show ?thesis
    by (simp add: pd_merge_left_distinct [OF assms(1)] colonna_def map_add_def
          map_of_rinomina [OF z r])
qed

lemma somma_esempio: "somma_statistiche_con_peq0 base_esempio peq0_esempio
   = \<lparr>Data = [1], colonne = [(''IM_01'', [Some 13]), (''IM_02'', [Some 4])]\<rparr>"
  by (simp add: somma_statistiche_con_peq0_def base_esempio_def peq0_esempio_def
       pd_merge_left_def accoppia_def zone_columns_def columns_def colonna_def assegna_def
       serie_somma_def fillna_def sort_values_Data_def Let_def)

lemma cella_somma_esempio: "cella (somma_statistiche_con_peq0 base_esempio peq0_esempio) 2 ''IM_01'' = None"
  by (simp add: somma_esempio cella_def trova_def)

lemma cella_peq0_esempio: "cella peq0_esempio 2 ''IM_01'' = Some (Some 5)"
  by (simp add: peq0_esempio_def cella_def trova_def colonna_def)

lemma fillna_nth: "i < length xs \<Longrightarrow> fillna 0 xs ! i = Some (nan0 (xs ! i))"
  by (simp add: fillna_def nan0_def split: option.splits)

lemma serie_somma_fillna_nth:
  "i < length a \<Longrightarrow> i < length b
     \<Longrightarrow> serie_somma (fillna 0 a) (fillna 0 b) ! i = Some (nan0 (a ! i) + nan0 (b ! i))"
  by (simp add: serie_somma_def fillna_def nan0_def split: option.splits)

lemma valore0_alt:
  "valore0 df d z =
     (case trova (Data df) d of
        None \<Rightarrow> 0
      | Some i \<Rightarrow> (case colonna df z of None \<Rightarrow> 0 | Some c \<Rightarrow> nan0 (c ! i)))"
  by (simp add: valore0_def cella_def split: option.splits)

text \<open>
  Claim C9, amended. For two tables with one row per date, a zone column \<open>z\<close> of the base
  table and no column named \<open>z\<close> followed by \<^verbatim>\<open>_peq0\<close>: the derived table has the dates of
  the base table, in increasing order; at every date of the base table its cell for \<open>z\<close> is
  the base value plus the Peq0 value, a value missing on either side (a missing cell, or a
  date or zone that the Peq0 table does not have) counting as zero; a date that the base
  table does not have is not in the derived table, whatever the Peq0 table holds for it,
  and neither is a column that is not a zone column of the base table. The function
  returns a new table: the base table is a value and stays as it is.
\<close>

theorem somma_con_peq0_additiva:
  assumes dsx: "distinct (Data sx)" and ddx: "distinct (Data dx)"
    and c: "colonna sx z = Some c" and zD: "z \<noteq> ''Data''"
    and n1: "z @ ''_peq0'' \<notin> set (columns sx)" and n2: "z @ ''_peq0'' \<notin> set (columns dx)"
  shows "Data (somma_statistiche_con_peq0 sx dx) = sort (Data sx)
     \<and> (\<forall>d \<in> set (Data sx).
           cella (somma_statistiche_con_peq0 sx dx) d z
             = Some (Some (valore0 sx d z + valore0 dx d z)))
     \<and> (\<forall>d z'. d \<notin> set (Data sx) \<longrightarrow> cella (somma_statistiche_con_peq0 sx dx) d z' = None)
     \<and> (\<forall>z'. z' \<notin> set (zone_columns sx)
           \<longrightarrow> colonna (somma_statistiche_con_peq0 sx dx) z' = None)"
proof -
  let ?m = "pd_merge_left sx dx ''_peq0''"
  let ?n = "length (Data sx)"
  let ?r0 = "fold (\<lambda>col acc. case serie_con_peq0 ?m col of
                           None \<Rightarrow> acc | Some v \<Rightarrow> assegna acc col v)
          (zone_columns sx) \<lparr>Data = Data ?m, colonne = []\<rparr>"
  let ?A = "map (\<lambda>i. c ! i) [0..<?n]"
  let ?G = "\<lambda>cR. map (\<lambda>i. case trova (Data dx) (Data sx ! i) of None \<Rightarrow> None
                                  | Some j' \<Rightarrow> cR ! j') [0..<?n]"
  have S: "somma_statistiche_con_peq0 sx dx = sort_values_Data ?r0"
    by (rule somma_statistiche_con_peq0_fold)
  have Dr0: "Data ?r0 = Data sx"
    by (simp add: fold_assegna_gen_Data merged_Data [OF ddx])
  then have dr0: "distinct (Data ?r0)"
    using dsx by simp
  have 1: "Data (somma_statistiche_con_peq0 sx dx) = sort (Data sx)"
    unfolding S using Data_sort_values [OF dr0] Dr0 by simp
  have ce: "\<And>d z'. cella (somma_statistiche_con_peq0 sx dx) d z' = cella ?r0 d z'"
    unfolding S by (rule cella_sort_values [OF dr0])
  have 3: "\<forall>d z'. d \<notin> set (Data sx) \<longrightarrow> cella (somma_statistiche_con_peq0 sx dx) d z' = None"
  proof (intro allI impI)
    fix d z' assume "d \<notin> set (Data sx)"
    then have "trova (Data sx) d = None"
      by (simp add: trova_None)
    then have "trova (Data ?r0) d = None"
      by (simp only: Dr0)
    then show "cella (somma_statistiche_con_peq0 sx dx) d z' = None"
      unfolding ce by (simp add: cella_def)
  qed
  have 4: "\<forall>z'. z' \<notin> set (zone_columns sx)
           \<longrightarrow> colonna (somma_statistiche_con_peq0 sx dx) z' = None"
  proof (intro allI impI)
    fix z' assume nz: "z' \<notin> set (zone_columns sx)"
    have "colonna \<lparr>Data = Data ?m, colonne = []\<rparr> z' = None"
      by (simp add: colonna_def)
    with nz have "colonna ?r0 z' = None"
      by (simp add: fold_assegna_gen)
    then show "colonna (somma_statistiche_con_peq0 sx dx) z' = None"
      unfolding S by (simp add: colonna_sort_values)
  qed
  from c have "z \<in> fst ` set (colonne sx)"
    unfolding colonna_def by (metis map_of_eq_None_iff option.distinct(1))
  with zD have zz: "z \<in> set (zone_columns sx)"
    by (simp add: zone_columns_def columns_def)
  have mz: "colonna ?m z = Some ?A"
    by (rule merged_colonna_sx [OF ddx c])
  have mp: "colonna ?m (z @ ''_peq0'') = map_option ?G (colonna dx z)"
    by (rule merged_colonna_dx [OF ddx c n1 n2])
  have 2: "\<forall>d \<in> set (Data sx).
           cella (somma_statistiche_con_peq0 sx dx) d z
             = Some (Some (valore0 sx d z + valore0 dx d z))"
  proof
    fix d assume din: "d \<in> set (Data sx)"
    then obtain i where i: "trova (Data sx) d = Some i"
      using trova_None [of "Data sx" d] by (cases "trova (Data sx) d") auto
    from trova_Some [OF i] have il: "i < ?n" and id: "Data sx ! i = d"
      by simp_all
    have vs: "valore0 sx d z = nan0 (c ! i)"
      by (simp add: valore0_alt i c)
    show "cella (somma_statistiche_con_peq0 sx dx) d z
             = Some (Some (valore0 sx d z + valore0 dx d z))"
    proof (cases "colonna dx z")
      case None
      then have "serie_con_peq0 ?m z = Some (fillna 0 ?A)"
        by (simp add: serie_con_peq0_def mz mp)
      then have "colonna ?r0 z = Some (fillna 0 ?A)"
        using zz by (simp add: fold_assegna_gen)
      then have "cella ?r0 d z = Some (fillna 0 ?A ! i)"
        by (simp add: cella_def Dr0 i)
      also have "fillna 0 ?A ! i = Some (nan0 (c ! i))"
        using il by (simp add: fillna_nth)
      finally have "cella ?r0 d z = Some (Some (nan0 (c ! i)))" .
      moreover from None have "valore0 dx d z = 0"
        by (simp add: valore0_alt split: option.splits)
      ultimately show ?thesis
        unfolding ce by (simp add: vs)
    next
      case (Some cR)
      then have "serie_con_peq0 ?m z = Some (serie_somma (fillna 0 ?A) (fillna 0 (?G cR)))"
        by (simp add: serie_con_peq0_def mz mp)
      then have "colonna ?r0 z = Some (serie_somma (fillna 0 ?A) (fillna 0 (?G cR)))"
        using zz by (simp add: fold_assegna_gen)
      then have "cella ?r0 d z = Some (serie_somma (fillna 0 ?A) (fillna 0 (?G cR)) ! i)"
        by (simp add: cella_def Dr0 i)
      also have "serie_somma (fillna 0 ?A) (fillna 0 (?G cR)) ! i
          = Some (nan0 (?A ! i) + nan0 (?G cR ! i))"
        using il by (simp add: serie_somma_fillna_nth)
      also have "?A ! i = c ! i"
        using il by simp
      also have "nan0 (?G cR ! i) = valore0 dx d z"
        using il id Some by (simp add: valore0_alt nan0_def split: option.splits)
      finally show ?thesis
        unfolding ce by (simp add: vs)
    qed
  qed
  from 1 2 3 4 show ?thesis by blast
qed

theorem somma_con_peq0_additiva_witness:
  "distinct (Data base_esempio) \<and> distinct (Data peq0_esempio)
   \<and> colonna base_esempio ''IM_01'' = Some [Some 10]
   \<and> ''IM_01'' \<noteq> ''Data''
   \<and> ''IM_01'' @ ''_peq0'' \<notin> set (columns base_esempio)
   \<and> ''IM_01'' @ ''_peq0'' \<notin> set (columns peq0_esempio)
   \<and> Data (somma_statistiche_con_peq0 base_esempio peq0_esempio) = sort (Data base_esempio)
   \<and> cella (somma_statistiche_con_peq0 base_esempio peq0_esempio) 1 ''IM_01''
       = Some (Some (valore0 base_esempio 1 ''IM_01'' + valore0 peq0_esempio 1 ''IM_01''))
   \<and> valore0 base_esempio 1 ''IM_01'' + valore0 peq0_esempio 1 ''IM_01'' = 13
   \<and> cella (somma_statistiche_con_peq0 base_esempio peq0_esempio) 1 ''IM_02'' = Some (Some 4)"
proof -
  have h1: "distinct (Data base_esempio)"
    by (simp add: base_esempio_def)
  have h2: "distinct (Data peq0_esempio)"
    by (simp add: peq0_esempio_def)
  have h3: "colonna base_esempio ''IM_01'' = Some [Some 10]"
    by (simp add: base_esempio_def colonna_def)
  have h4: "''IM_01'' \<noteq> ''Data''"
    by simp
  have h5: "''IM_01'' @ ''_peq0'' \<notin> set (columns base_esempio)"
    by (simp add: base_esempio_def columns_def)
  have h6: "''IM_01'' @ ''_peq0'' \<notin> set (columns peq0_esempio)"
    by (simp add: peq0_esempio_def columns_def)
  note t = somma_con_peq0_additiva [OF h1 h2 h3 h4 h5 h6]
  from t have a: "Data (somma_statistiche_con_peq0 base_esempio peq0_esempio)
      = sort (Data base_esempio)"
    by blast
  from t have b: "\<forall>d \<in> set (Data base_esempio).
      cella (somma_statistiche_con_peq0 base_esempio peq0_esempio) d ''IM_01''
        = Some (Some (valore0 base_esempio d ''IM_01'' + valore0 peq0_esempio d ''IM_01''))"
    by blast
  have m: "1 \<in> set (Data base_esempio)"
    by (simp add: base_esempio_def)
  note c = bspec [OF b m]
  have v: "valore0 base_esempio 1 ''IM_01'' + valore0 peq0_esempio 1 ''IM_01'' = 13"
    by (simp add: valore0_def cella_def trova_def colonna_def nan0_def base_esempio_def
          peq0_esempio_def)
  have e: "cella (somma_statistiche_con_peq0 base_esempio peq0_esempio) 1 ''IM_02''
      = Some (Some 4)"
    by (simp add: somma_esempio cella_def trova_def colonna_def)
  from h1 h2 h3 h4 h5 h6 a c v e show ?thesis
    by blast
qed

text \<open>
  Claim C9 as stated fails for a date that only the Peq0 table has: the Peq0 table holds 5
  for zone \<^verbatim>\<open>IM_01\<close> at date 2, the base table has no row for date 2, and the derived table
  has no row for it either, instead of a row holding the Peq0 value alone.
\<close>

theorem somma_con_peq0_controesempio:
  "cella peq0_esempio 2 ''IM_01'' = Some (Some 5)
   \<and> cella base_esempio 2 ''IM_01'' = None
   \<and> cella (somma_statistiche_con_peq0 base_esempio peq0_esempio) 2 ''IM_01'' = None
   \<and> cella (somma_statistiche_con_peq0 base_esempio peq0_esempio) 2 ''IM_01''
       \<noteq> Some (Some (valore0 base_esempio 2 ''IM_01'' + valore0 peq0_esempio 2 ''IM_01''))
   \<and> Data (somma_statistiche_con_peq0 base_esempio peq0_esempio) = [1]"
  by (simp add: cella_somma_esempio cella_peq0_esempio somma_esempio)
     (simp add: cella_def trova_def base_esempio_def)

section \<open>The equivalent rainfall of a table\<close>

text \<open>
  A zone of curve number 100 with rainfall on the days before: every cell with a positive
  cumulated rainfall is not-a-number in the table of equivalent rainfall.
\<close>

lemma calcola_peq0_per_tutte_zone_esempio:
  "calcola_peq0_per_tutte_zone
     \<lparr>Data = [0, 1, 2], colonne = [(''IM_01'', [Some 0, Some 1, Some 3])]\<rparr> [''IM_01'' \<mapsto> 100]
     = Inr \<lparr>Data = [0, 1, 2], colonne = [(''IM_01'', [Finito 0, NonNumero, NonNumero])]\<rparr>"
  by (simp add: calcola_peq0_per_tutte_zone_def zone_columns_def columns_def colonna_def
        assegna_def peq0_cella_def calcola_peq0_def da_cella_def)

section \<open>The antecedent rainfall by calendar days\<close>











end
